theory Spec2Isabelle
  imports Main "HOL-Library.Word" "HOL-Library.Signed_Division" "HOL-Library.Sublist"
begin

section \<open>The KVM guest instance controller (package guestman, qemu-kvm.go)\<close>

text \<open>
  The development embeds the part of the per-host guest instance controller that renders
  start and stop scripts, reconciles the memory descriptor with the hypervisor, fixes the
  machine type and unifies migration command lines. Go strings are \<open>string\<close>, \<open>int64\<close>
  and \<open>uint\<close> are \<open>64 word\<close>, a Go \<open>map[string]T\<close> is a partial function, a returned
  \<open>error\<close> and a runtime panic are the left summand of a sum type.
\<close>

subsection \<open>Errors and formatting\<close>

datatype error =
    Errorf string "string list"       \<comment> \<open>\<open>errors.Errorf(format, args)\<close>, \<open>fmt.Errorf\<close>\<close>
  | Wrap error string                 \<comment> \<open>\<open>errors.Wrap(err, msg)\<close>\<close>
  | Wrapf error string "string list"  \<comment> \<open>\<open>errors.Wrapf(err, format, args)\<close>\<close>
  | Panic string                      \<comment> \<open>a nil dereference at run time\<close>

definition bind_err :: "error + 'a \<Rightarrow> ('a \<Rightarrow> error + 'b) \<Rightarrow> error + 'b" where
  "bind_err r f = (case r of Inl e \<Rightarrow> Inl e | Inr v \<Rightarrow> f v)"

definition nl :: string where
  "nl = [CHR 0x0A]"

definition digit_char :: "nat \<Rightarrow> char" where
  "digit_char d =
     (if d = 0 then CHR ''0'' else if d = 1 then CHR ''1'' else if d = 2 then CHR ''2''
      else if d = 3 then CHR ''3'' else if d = 4 then CHR ''4'' else if d = 5 then CHR ''5''
      else if d = 6 then CHR ''6'' else if d = 7 then CHR ''7'' else if d = 8 then CHR ''8''
      else CHR ''9'')"

function formatBits :: "nat \<Rightarrow> string \<Rightarrow> string" where
  \<comment> \<open>decimal digits, least significant first, written in front of the buffer\<close>
  "formatBits u buf =
     (let buf1 = digit_char (u mod 10) # buf
      in if u div 10 = 0 then buf1 else formatBits (u div 10) buf1)"
  by pat_completeness auto
termination
  by (relation "measure fst") auto

type_synonym int64 = "64 word"
type_synonym uint = "64 word"

definition Sprintf_d :: "int64 \<Rightarrow> string" where
  \<comment> \<open>\<open>%d\<close> of a signed 64-bit value\<close>
  "Sprintf_d w = (if sint w < 0 then CHR ''-'' # formatBits (nat (- sint w)) [] else formatBits (nat (sint w)) [])"

definition Sprintf_u :: "uint \<Rightarrow> string" where
  \<comment> \<open>\<open>%d\<close> of an unsigned 64-bit value\<close>
  "Sprintf_u w = formatBits (unat w) []"

definition go_div :: "int64 \<Rightarrow> int64 \<Rightarrow> int64" where
  \<comment> \<open>Go's \<open>/\<close> on \<open>int64\<close>: truncation towards zero, the result wrapped to 64 bits\<close>
  "go_div a b = word_of_int (sint a sdiv sint b)"

definition IsInStringArray :: "string \<Rightarrow> string list \<Rightarrow> bool" where
  "IsInStringArray x xs = (x \<in> set xs)"

subsection \<open>Constants declared outside this file\<close>

text \<open>
  Modelled from the spec: the string constants of packages \<open>api\<close> and \<open>qemu\<close> that
  qemu-kvm.go names (machine types generic PC, Q35 and ARM-virt, the UEFI BIOS mode, the
  OS names, the VFIO NIC driver, the monitor modes and the monitor port base) are declared
  in files that are not part of the sources at hand. The theorems refer to them by name
  and use of their values only that different constants are different strings.
\<close>

definition VM_MACHINE_TYPE_PC :: string where "VM_MACHINE_TYPE_PC = ''pc''"
definition VM_MACHINE_TYPE_Q35 :: string where "VM_MACHINE_TYPE_Q35 = ''q35''"
definition VM_MACHINE_TYPE_ARM_VIRT :: string where "VM_MACHINE_TYPE_ARM_VIRT = ''virt''"
definition BIOS_UEFI :: string where "BIOS_UEFI = ''UEFI''"
definition OS_NAME_LINUX :: string where "OS_NAME_LINUX = ''Linux''"
definition OS_NAME_WINDOWS :: string where "OS_NAME_WINDOWS = ''Windows''"
definition OS_NAME_MACOS :: string where "OS_NAME_MACOS = ''macOS''"
definition OS_NAME_ANDROID :: string where "OS_NAME_ANDROID = ''Android''"
definition OS_NAME_CIRROS :: string where "OS_NAME_CIRROS = ''Cirros''"
definition OS_NAME_OPENWRT :: string where "OS_NAME_OPENWRT = ''OpenWrt''"
definition NETWORK_DRIVER_VFIO :: string where "NETWORK_DRIVER_VFIO = ''vfio-pci''"
definition MODE_READLINE :: string where "MODE_READLINE = ''readline''"
definition MODE_CONTROL :: string where "MODE_CONTROL = ''control''"
definition MONITOR_PORT_BASE :: int64 where "MONITOR_PORT_BASE = 55900"

subsection \<open>The guest descriptor\<close>

record SGuestNetwork =
  Ifname :: string
  Bridge :: string
  Driver :: string
  Mac :: string
  Ip :: string

record Object =
  ObjType :: string
  Id :: string
  Options :: "string \<rightharpoonup> string"

definition NewObject :: "string \<Rightarrow> string \<Rightarrow> Object" where
  \<comment> \<open>\<open>desc.NewObject(objType, id)\<close>: an object with no options yet\<close>
  "NewObject t i = \<lparr>ObjType = t, Id = i, Options = Map.empty\<rparr>"

record SMemDevice =
  DevType :: string
  DevId :: string

record SMemSlot =
  SlotSizeMB :: int64
  MemObj :: Object
  MemDev :: SMemDevice

record SGuestMem =
  SizeMB :: int64
  Mem :: "Object option"
  MemSlots :: "SMemSlot list"

record SGuestCpu =
  Accel :: string

datatype JSONObject =
    JSONArray "JSONObject list"
  | JSONValue string   \<comment> \<open>any other JSON value, carried as the text its \<open>String()\<close> returns\<close>

record SGuestDesc =
  Uuid :: string
  Cpu :: int64
  Mem_MB :: int64                          \<comment> \<open>field \<open>Mem\<close>\<close>
  Machine :: string
  Bios :: string
  Vdi :: string
  IsSlave :: bool
  Nics :: "SGuestNetwork list"
  Disks :: "string list"
  Metadata :: "string \<rightharpoonup> string"
  ExtraOptions :: "string \<rightharpoonup> JSONObject"
  UsbId :: "string option"                 \<comment> \<open>\<open>Usb.Id\<close>; \<open>None\<close> when the \<open>Usb\<close> pointer is nil\<close>
  CpuDesc :: "SGuestCpu option"
  MemDesc :: "SGuestMem option"

record SKVMGuestInstance =
  Desc :: SGuestDesc
  LiveMigrateDestPort :: "int64 option"
  LiveMigrateUseTls :: bool

text \<open>The host behind \<open>s.manager.host\<close>, read only.\<close>

record host =
  IsAarch64 :: bool
  IsKvmSupport :: bool
  IsHugepagesEnabled :: bool
  HugepageSizeKb :: int64
  GetCpuArchitecture :: string
  GetBridgeDev :: "string \<rightharpoonup> string"   \<comment> \<open>bridge name to the \<open>Bridge()\<close> of its driver; \<open>None\<close> is nil\<close>

text \<open>The architecture strategy \<open>s.archMan\<close>; its implementations live in other files.\<close>

record archMan =
  GenerateCpuDesc :: "uint \<Rightarrow> SKVMGuestInstance \<Rightarrow> error + SGuestCpu"
  GenerateMemDesc :: SGuestMem

subsection \<open>Metadata accessors\<close>

definition md_get :: "(string \<rightharpoonup> string) \<Rightarrow> string \<Rightarrow> string" where
  \<comment> \<open>indexing a Go map: the zero value for a missing key\<close>
  "md_get m k = (case m k of None \<Rightarrow> [] | Some v \<Rightarrow> v)"

definition GetOsName :: "SKVMGuestInstance \<Rightarrow> string" where
  "GetOsName s = (case Metadata (Desc s) ''os_name'' of Some osName \<Rightarrow> osName | None \<Rightarrow> OS_NAME_LINUX)"

definition isMemcleanEnabled :: "SKVMGuestInstance \<Rightarrow> bool" where
  "isMemcleanEnabled s = (md_get (Metadata (Desc s)) ''enable_memclean'' = ''true'')"

subsection \<open>Machine type fix-up and CPU descriptor\<close>

definition fixGuestMachineType :: "host \<Rightarrow> SKVMGuestInstance \<Rightarrow> SKVMGuestInstance" where
  "fixGuestMachineType h s =
     (let s1 = (if GetOsName s = OS_NAME_MACOS
                then s\<lparr>Desc := (Desc s)\<lparr>Machine := VM_MACHINE_TYPE_Q35, Bios := BIOS_UEFI\<rparr>\<rparr>
                else s)
      in if IsAarch64 h
         then (let s2 = (if IsInStringArray (Machine (Desc s1))
                              [[], VM_MACHINE_TYPE_PC, VM_MACHINE_TYPE_Q35]
                         then s1\<lparr>Desc := (Desc s1)\<lparr>Machine := VM_MACHINE_TYPE_ARM_VIRT\<rparr>\<rparr>
                         else s1)
               in s2\<lparr>Desc := (Desc s2)\<lparr>Bios := BIOS_UEFI\<rparr>\<rparr>)
         else s1)"

definition initCpuDesc :: "archMan \<Rightarrow> host \<Rightarrow> SKVMGuestInstance \<Rightarrow> error option \<times> SKVMGuestInstance" where
  \<comment> \<open>returns the error, if any, and the instance as the call leaves it\<close>
  "initCpuDesc am h s =
     (let s1 = fixGuestMachineType h s
      in case GenerateCpuDesc am (Cpu (Desc s1)) s1 of
           Inl err \<Rightarrow> (Some err, s1)
         | Inr cpuDesc \<Rightarrow> (None, s1\<lparr>Desc := (Desc s1)\<lparr>CpuDesc := Some cpuDesc\<rparr>\<rparr>))"


subsection \<open>Memory descriptor\<close>

text \<open>One entry of the hypervisor's memory device list (\<open>monitor.MemoryDeviceInfo\<close>).\<close>

record MemoryDeviceInfo =
  Type :: string
  DataID :: "string option"     \<comment> \<open>\<open>Data.ID\<close>, a pointer\<close>
  DataSize :: int64             \<comment> \<open>\<open>Data.Size\<close>, in bytes\<close>
  DataMemdev :: string          \<comment> \<open>\<open>Data.Memdev\<close>\<close>

definition path_Base :: "string \<Rightarrow> string" where
  \<comment> \<open>Go's \<open>path.Base\<close>: the last element, trailing slashes removed\<close>
  "path_Base p =
     (if p = [] then ''.''
      else (let p1 = rev (dropWhile (\<lambda>c. c = CHR ''/'') (rev p));
                p2 = rev (takeWhile (\<lambda>c. c \<noteq> CHR ''/'') (rev p1))
            in if p2 = [] then ''/'' else p2))"

definition memObjType :: "host \<Rightarrow> SKVMGuestInstance \<Rightarrow> string" where
  "memObjType h s =
     (if IsHugepagesEnabled h then ''memory-backend-file''
      else if isMemcleanEnabled s then ''memory-backend-memfd''
      else ''memory-backend-ram'')"

definition initMemDesc :: "archMan \<Rightarrow> host \<Rightarrow> SKVMGuestInstance \<Rightarrow> int64 \<Rightarrow> SKVMGuestInstance" where
  "initMemDesc am h s memSizeMB =
     (let md = (GenerateMemDesc am)\<lparr>SizeMB := memSizeMB\<rparr>;
          obj =
            (if IsHugepagesEnabled h
             then (NewObject ''memory-backend-file'' ''mem'')
                    \<lparr>Options := [''mem-path'' \<mapsto> ''/dev/hugepages/'' @ Uuid (Desc s),
                                 ''size'' \<mapsto> Sprintf_d memSizeMB @ ''M'',
                                 ''share'' \<mapsto> ''on'', ''prealloc'' \<mapsto> ''on'']\<rparr>
             else if isMemcleanEnabled s
             then (NewObject ''memory-backend-memfd'' ''mem'')
                    \<lparr>Options := [''size'' \<mapsto> Sprintf_d memSizeMB @ ''M'',
                                 ''share'' \<mapsto> ''on'', ''prealloc'' \<mapsto> ''on'']\<rparr>
             else (NewObject ''memory-backend-ram'' ''mem'')
                    \<lparr>Options := [''size'' \<mapsto> Sprintf_d memSizeMB @ ''M'']\<rparr>)
      in s\<lparr>Desc := (Desc s)\<lparr>MemDesc := Some (md\<lparr>Mem := Some obj\<rparr>)\<rparr>\<rparr>)"

definition sizeMB :: "MemoryDeviceInfo \<Rightarrow> int64" where
  \<comment> \<open>\<open>Data.Size / 1024 / 1024\<close>\<close>
  "sizeMB dev = go_div (go_div (DataSize dev) 1024) 1024"

text \<open>
  The loop of \<open>initMemDescFromMemoryInfo\<close> over the device list, with its two
  variables \<open>memSize\<close> and \<open>memSlots\<close>; it returns at the first unsupported device.
\<close>

fun memSlots_loop ::
  "string \<Rightarrow> MemoryDeviceInfo list \<Rightarrow> int64 \<Rightarrow> SMemSlot list \<Rightarrow> error + (int64 \<times> SMemSlot list)" where
  "memSlots_loop objType [] memSize memSlots = Inr (memSize, memSlots)"
| "memSlots_loop objType (dev # devs) memSize memSlots =
     (if Type dev \<noteq> ''dimm'' \<or> DataID dev = None
      then Inl (Errorf ''unsupported memory device type %s'' [Type dev])
      else memSlots_loop objType devs (memSize - sizeMB dev)
             (memSlots @ [\<lparr>SlotSizeMB = sizeMB dev,
                           MemObj = NewObject objType (path_Base (DataMemdev dev)),
                           MemDev = \<lparr>DevType = ''pc-dimm'',
                                     DevId = (case DataID dev of Some devId \<Rightarrow> devId | None \<Rightarrow> [])\<rparr>\<rparr>]))"

definition initMemDescFromMemoryInfo ::
  "archMan \<Rightarrow> host \<Rightarrow> SKVMGuestInstance \<Rightarrow> MemoryDeviceInfo list \<Rightarrow> error option \<times> SKVMGuestInstance" where
  \<comment> \<open>returns the error, if any, and the instance as the call leaves it\<close>
  "initMemDescFromMemoryInfo am h s memoryDevicesInfoList =
     (case memSlots_loop (memObjType h s) memoryDevicesInfoList (Mem_MB (Desc s)) [] of
        Inl err \<Rightarrow> (Some err, s)
      | Inr (memSize, memSlots) \<Rightarrow>
          if memSize \<le>s 0
          then (Some (Errorf ''wrong memsize %d'' [Sprintf_d (Mem_MB (Desc s))]), s)
          else (let s1 = initMemDesc am h s memSize
                in (None, s1\<lparr>Desc := (Desc s1)
                        \<lparr>MemDesc := map_option (\<lambda>md. md\<lparr>MemSlots := memSlots\<rparr>) (MemDesc (Desc s1))\<rparr>\<rparr>)))"

subsection \<open>Collaborators outside this file\<close>

text \<open>
  Methods of the guest instance that are defined in other files of the package, the host
  options, and the library functions the renderer calls. They are parameters of the
  model: every theorem holds for whatever they compute.
\<close>

datatype Arch = Arch_x86_64 | Arch_aarch64

record Monitor =
  MonId :: string
  MonPort :: uint
  MonMode :: string

text \<open>The input handed to \<open>qemu.GenerateStartOptions\<close>.\<close>

record GenerateStartOptionsInput =
  GuestDesc :: SGuestDesc
  OsName :: string
  OVNIntegrationBridge :: string
  HomeDir_in :: string                 \<comment> \<open>field \<open>HomeDir\<close>\<close>
  HugepagesEnabled :: bool
  EnableMemfd :: bool
  PidFilePath :: string
  EncryptKeyPath :: string
  VNCPort :: uint
  QemuVersion :: string
  QemuArch :: Arch
  EnableLog :: bool
  HMPMonitor :: Monitor
  QMPMonitor :: Monitor
  EnableUUID :: bool
  OVMFPath :: string
  Devices :: "string list"
  IsVdiSpice_in :: bool                \<comment> \<open>field \<open>IsVdiSpice\<close>\<close>
  SpicePort :: uint
  VNCPassword :: bool
  IsKVMSupport :: bool
  ExtraOptions_in :: "string list"     \<comment> \<open>field \<open>ExtraOptions\<close>\<close>
  NeedMigrate :: bool
  LiveMigratePort :: uint
  LiveMigrateUseTLS :: bool

record HostOptions =
  OvnIntegrationBridge :: string
  DefaultQemuVersion :: string
  DisableKVM :: bool
  EnableQemuDebugLog :: bool
  EnableVmUuid :: bool
  OvmfPath :: string
  SetVncPassword :: bool

record deps =
  options :: HostOptions
  HomeDir :: "SKVMGuestInstance \<Rightarrow> string"
  GetPidFilePath :: "SKVMGuestInstance \<Rightarrow> string"
  GetVncFilePath :: "SKVMGuestInstance \<Rightarrow> string"
  getStateFilePathRootPrefix :: "SKVMGuestInstance \<Rightarrow> string"
  getEncryptKeyPath :: "SKVMGuestInstance \<Rightarrow> string"
  saveEncryptKeyFile :: "SKVMGuestInstance \<Rightarrow> string \<Rightarrow> error option"
  generateDiskSetupScripts :: "SKVMGuestInstance \<Rightarrow> string list \<Rightarrow> error + string"
  generateSRIOVInitScripts :: "SKVMGuestInstance \<Rightarrow> error + string"
  GetHmpMonitorPort :: "SKVMGuestInstance \<Rightarrow> int64 \<Rightarrow> int64"
  GetQmpMonitorPort :: "SKVMGuestInstance \<Rightarrow> int64 \<Rightarrow> int64"
  path_Join :: "string list \<Rightarrow> string"              \<comment> \<open>Go's \<open>path.Join\<close>\<close>
  ToLower :: "string \<Rightarrow> string"                      \<comment> \<open>Go's \<open>strings.ToLower\<close>\<close>
  GetQemu :: "string \<Rightarrow> string"                      \<comment> \<open>\<open>qemutils.GetQemu(version)\<close>\<close>
  VpcOvnEncapCostStr :: string
  ARCH_X86 :: "string list"                            \<comment> \<open>\<open>apis.ARCH_X86\<close>\<close>
  GenerateStartOptions :: "GenerateStartOptionsInput \<Rightarrow> error + string"

text \<open>
  The runtime overrides, a JSON dictionary in the source, as the values the renderer
  reads from it: \<open>None\<close> for a key the dictionary does not contain, the default
  \<open>False\<close> for an absent boolean and \<open>0\<close> for an absent port.
\<close>

record StartData =
  encrypt_key :: "string option"
  vnc_port :: int64
  qemu_version :: "string option"
  need_migrate :: bool
  live_migrate_use_tls :: bool

subsection \<open>More accessors\<close>

definition disableUsbKbd :: "SKVMGuestInstance \<Rightarrow> bool" where
  "disableUsbKbd s = (md_get (Metadata (Desc s)) ''disable_usb_kbd'' = ''true'')"

definition getOsDistribution :: "SKVMGuestInstance \<Rightarrow> string" where
  "getOsDistribution s = md_get (Metadata (Desc s)) ''os_distribution''"

definition getOsVersion :: "SKVMGuestInstance \<Rightarrow> string" where
  "getOsVersion s = md_get (Metadata (Desc s)) ''os_version''"

definition IsOldWindows :: "SKVMGuestInstance \<Rightarrow> bool" where
  "IsOldWindows s =
     (if GetOsName s = OS_NAME_WINDOWS
      then (let ver = getOsVersion s in 1 < length ver \<and> take 2 ver = ''5.'')
      else False)"

definition isWindows10 :: "deps \<Rightarrow> SKVMGuestInstance \<Rightarrow> bool" where
  "isWindows10 d s =
     (if GetOsName s = OS_NAME_WINDOWS
      then sublist ''windows 10'' (ToLower d (getOsDistribution s))
      else False)"

definition IsVdiSpice :: "SKVMGuestInstance \<Rightarrow> bool" where
  "IsVdiSpice s = (Vdi (Desc s) = ''spice'')"

subsection \<open>NIC down-scripts\<close>

definition getNicDownScriptPath ::
  "deps \<Rightarrow> host \<Rightarrow> SKVMGuestInstance \<Rightarrow> SGuestNetwork \<Rightarrow> error + string" where
  \<comment> \<open>\<open>dev.Bridge()\<close> on a nil bridge driver panics\<close>
  "getNicDownScriptPath d h s nic =
     (case GetBridgeDev h (Bridge nic) of
        None \<Rightarrow> Inl (Panic ''nil bridge driver'')
      | Some dev_Bridge \<Rightarrow>
          Inr (path_Join d [HomeDir d s, ''if-down-'' @ dev_Bridge @ ''-'' @ Ifname nic @ ''.sh'']))"

definition nicDownScriptLine ::
  "deps \<Rightarrow> host \<Rightarrow> SKVMGuestInstance \<Rightarrow> SGuestNetwork \<Rightarrow> error + string" where
  \<comment> \<open>\<open>fmt.Sprintf("%s %s\n", downscript, nic.Ifname)\<close>\<close>
  "nicDownScriptLine d h s nic =
     bind_err (getNicDownScriptPath d h s nic) (\<lambda>downscript. Inr (downscript @ '' '' @ Ifname nic @ nl))"

text \<open>
  The loop \<open>for _, nic := range nics\<close> that both scripts contain: it appends to \<open>cmd\<close> and
  skips a NIC whose driver is VFIO.
\<close>

fun nicDownScripts_loop ::
  "deps \<Rightarrow> host \<Rightarrow> SKVMGuestInstance \<Rightarrow> SGuestNetwork list \<Rightarrow> string \<Rightarrow> error + string" where
  "nicDownScripts_loop d h s [] cmd = Inr cmd"
| "nicDownScripts_loop d h s (nic # nics) cmd =
     (if Driver nic = NETWORK_DRIVER_VFIO
      then nicDownScripts_loop d h s nics cmd
      else bind_err (nicDownScriptLine d h s nic) (\<lambda>line. nicDownScripts_loop d h s nics (cmd @ line)))"

subsection \<open>The stop script\<close>

definition stop_kill_commands :: "deps \<Rightarrow> SKVMGuestInstance \<Rightarrow> string" where
  \<comment> \<open>the lines of \<open>generateStopScript\<close> up to the removal of the PID file\<close>
  \<open>stop_kill_commands d s =
     ''VNC_FILE='' @ GetVncFilePath d s @ nl @
     ''PID_FILE='' @ GetPidFilePath d s @ nl @
     ''if [ "$1" != "--force" ] && [ -f $VNC_FILE ]; then'' @ nl @
     ''  VNC=`cat $VNC_FILE`'' @ nl @
     ''  MON=$(($VNC + '' @ Sprintf_d MONITOR_PORT_BASE @ ''))'' @ nl @
     ''  echo quit | nc -w 1 127.0.0.1 $MON > /dev/null'' @ nl @
     ''  sleep 1'' @ nl @
     ''  echo "Remove VNC $VNC_FILE"'' @ nl @
     ''  rm -f $VNC_FILE'' @ nl @
     ''fi'' @ nl @
     ''if [ -f $PID_FILE ]; then'' @ nl @
     ''  PID=`cat $PID_FILE`'' @ nl @
     ''  ps -p $PID > /dev/null'' @ nl @
     ''  if [ $? -eq 0 ]; then'' @ nl @
     ''    echo "Kill process $PID"'' @ nl @
     ''    kill -9 $PID > /dev/null 2>&1'' @ nl @
     ''  fi'' @ nl @
     ''  echo "Remove PID $PID_FILE"'' @ nl @
     ''  rm -f $PID_FILE'' @ nl @
     ''fi'' @ nl\<close>

definition hugepages_umount_loop :: "string \<Rightarrow> string" where
  \<comment> \<open>the loop that unmounts and removes the guest's hugepage directories\<close>
  \<open>hugepages_umount_loop uuid =
     ''for d in $(ls -d /dev/hugepages/'' @ uuid @ ''*)'' @ nl @
     ''do'' @ nl @
     ''  if [ -d $d ]; then'' @ nl @
     ''    umount $d'' @ nl @
     ''    rm -rf $d'' @ nl @
     ''  fi'' @ nl @
     ''done'' @ nl\<close>

definition generateStopScript :: "deps \<Rightarrow> host \<Rightarrow> SKVMGuestInstance \<Rightarrow> error + string" where
  "generateStopScript d h s =
     (let uuid = Uuid (Desc s);
          nics = Nics (Desc s);
          cmd = [];
          cmd = cmd @ stop_kill_commands d s;
          cmd = cmd @ hugepages_umount_loop uuid
      in nicDownScripts_loop d h s nics cmd)"

subsection \<open>Extra options\<close>

fun join_with :: "string \<Rightarrow> string list \<Rightarrow> string" where
  "join_with sep [] = []"
| "join_with sep [x] = x"
| "join_with sep (x # y # ys) = x @ sep @ join_with sep (y # ys)"

fun json_String :: "JSONObject \<Rightarrow> string" where
  \<comment> \<open>\<open>String()\<close> of a JSON value; an array prints its elements between brackets\<close>
  "json_String (JSONValue t) = t"
| "json_String (JSONArray vs) = ''['' @ join_with '','' (map json_String vs) @ '']''"

fun extraOptions_array :: "string \<Rightarrow> JSONObject list \<Rightarrow> string \<Rightarrow> string" where
  \<comment> \<open>the inner loop \<open>for i := 0; i < jsonV.Size(); i++\<close>\<close>
  "extraOptions_array k [] cmd = cmd"
| "extraOptions_array k (vAtI # vs) cmd =
     extraOptions_array k vs (cmd @ '' -'' @ k @ '' '' @ json_String vAtI)"

text \<open>
  \<open>for k, v := range s.Desc.ExtraOptions\<close> ranges over a Go map. The language leaves the
  iteration order of a map unspecified, and the runtime varies it from one loop to the
  next; the order in which the keys are visited is therefore an argument of the model.
  \<open>range_order m ks\<close> says that \<open>ks\<close> is an order in which \<open>range\<close> may visit \<open>m\<close>:
  every key once.
\<close>

definition range_order :: "('k \<rightharpoonup> 'v) \<Rightarrow> 'k list \<Rightarrow> bool" where
  "range_order m ks \<longleftrightarrow> distinct ks \<and> set ks = dom m"

fun extraOptions_loop :: "(string \<rightharpoonup> JSONObject) \<Rightarrow> string list \<Rightarrow> string \<Rightarrow> string" where
  "extraOptions_loop m [] cmd = cmd"
| "extraOptions_loop m (k # ks) cmd =
     (case m k of
        None \<Rightarrow> extraOptions_loop m ks cmd
      | Some (JSONArray vs) \<Rightarrow> extraOptions_loop m ks (extraOptions_array k vs cmd)
      | Some v \<Rightarrow> extraOptions_loop m ks (cmd @ '' -'' @ k @ '' '' @ json_String v))"

definition extraOptions :: "SKVMGuestInstance \<Rightarrow> string list \<Rightarrow> string" where
  \<comment> \<open>\<open>order\<close>: the order in which this call's \<open>range\<close> visits the keys\<close>
  "extraOptions s order = extraOptions_loop (ExtraOptions (Desc s)) order '' ''"

subsection \<open>The start script\<close>

definition wrap_err :: "error + 'a \<Rightarrow> string \<Rightarrow> error + 'a" where
  \<comment> \<open>\<open>if err != nil { return "", errors.Wrap(err, msg) }\<close>\<close>
  "wrap_err r msg = (case r of Inl err \<Rightarrow> Inl (Wrap err msg) | Inr v \<Rightarrow> Inr v)"

definition saveEncryptKey :: "deps \<Rightarrow> SKVMGuestInstance \<Rightarrow> StartData \<Rightarrow> error + string" where
  \<comment> \<open>the block \<open>if data.Contains("encrypt_key")\<close>; its value is \<open>input.EncryptKeyPath\<close>\<close>
  "saveEncryptKey d s data =
     (case encrypt_key data of
        None \<Rightarrow> Inr []
      | Some key \<Rightarrow>
          (case saveEncryptKeyFile d s key of
             Some err \<Rightarrow> Inl (Wrap err ''save encrypt key file'')
           | None \<Rightarrow> Inr (getEncryptKeyPath d s)))"

definition selectQemuVersion :: "deps \<Rightarrow> StartData \<Rightarrow> string" where
  \<comment> \<open>the block "inject qemu version": the value of \<open>input.QemuVersion\<close>\<close>
  "selectQemuVersion d data =
     (let qemuVersion = DefaultQemuVersion (options d);
          qemuVersion = (case qemu_version data of Some v \<Rightarrow> v | None \<Rightarrow> qemuVersion);
          qemuVersion = (if qemuVersion = ''latest'' then [] else qemuVersion)
      in qemuVersion)"

definition selectQemuCmd :: "deps \<Rightarrow> string \<Rightarrow> string" where
  \<comment> \<open>\<open>qemuCmd\<close>: the lookup by version and its fallback to the lookup without version\<close>
  "selectQemuCmd d qemuVersion =
     (let qemuCmd = GetQemu d qemuVersion
      in if length qemuCmd = 0 then GetQemu d [] else qemuCmd)"

definition hugepages_mount :: "host \<Rightarrow> SKVMGuestInstance \<Rightarrow> string" where
  "hugepages_mount h s =
     ''mkdir -p /dev/hugepages/'' @ Uuid (Desc s) @ nl @
     ''mount -t hugetlbfs -o pagesize='' @ Sprintf_d (HugepageSizeKb h) @ ''K,size='' @
       Sprintf_d (Mem_MB (Desc s)) @ ''M hugetlbfs-'' @ Uuid (Desc s) @
       '' /dev/hugepages/'' @ Uuid (Desc s) @ nl"

definition kvm_arg_line :: "deps \<Rightarrow> host \<Rightarrow> string" where
  "kvm_arg_line d h =
     (if IsKvmSupport h \<and> \<not> DisableKVM (options d)
      then ''QEMU_CMD_KVM_ARG=-enable-kvm'' @ nl
      else if IsInStringArray (GetCpuArchitecture h) (ARCH_X86 d)
      then ''QEMU_CMD_KVM_ARG=-no-kvm'' @ nl
      else ''QEMU_CMD_KVM_ARG='' @ nl)"

definition nic_helper_functions :: "string \<Rightarrow> string" where
  \<comment> \<open>the shell functions \<open>nic_speed\<close> and \<open>nic_mtu\<close>\<close>
  \<open>nic_helper_functions encapCost =
     nl @
     ''function nic_speed() {'' @ nl @
     ''    $QEMU_CMD $QEMU_CMD_KVM_ARG -device virtio-net-pci,help 2>&1 | grep -q "'' @
       [CHR 0x5C] @ ''<speed="'' @ nl @
     ''    if [ "$?" -eq "0" ]; then'' @ nl @
     ''        echo ",speed=$1"'' @ nl @
     ''    fi'' @ nl @
     ''}'' @ nl @
     nl @
     ''function nic_mtu() {'' @ nl @
     ''    local bridge="$1"; shift'' @ nl @
     nl @
     ''    $QEMU_CMD $QEMU_CMD_KVM_ARG -device virtio-net-pci,help 2>&1 | grep -q '' @
       [CHR 0x27, CHR 0x5C] @ ''<host_mtu='' @ [CHR 0x27] @ nl @
     ''    if [ "$?" -eq "0" ]; then'' @ nl @
     ''        local origmtu="$(<"/sys/class/net/$bridge/mtu")"'' @ nl @
     ''        if [ -n "$origmtu" -a "$origmtu" -gt 576 ]; then'' @ nl @
     ''            echo ",host_mtu=$(($origmtu - '' @ encapCost @ ''))"'' @ nl @
     ''        fi'' @ nl @
     ''    fi'' @ nl @
     ''}'' @ nl\<close>

definition incoming_tail :: string where
  \<comment> \<open>the end of the script: the exec form of the incoming clause, and the echo\<close>
  \<open>incoming_tail =
     nl @
     ''if [ ! -z "$STATE_FILE" ] && [ -d "$STATE_FILE" ] && [ -f "$STATE_FILE/content" ]; then'' @ nl @
     ''    CMD="$CMD --incoming '' @ [CHR 0x5C] @ ''"exec: cat $STATE_FILE/content'' @ [CHR 0x5C] @ ''""'' @ nl @
     ''elif [ ! -z "$STATE_FILE" ] && [ -f "$STATE_FILE" ]; then'' @ nl @
     ''    CMD="$CMD --incoming '' @ [CHR 0x5C] @ ''"exec: cat $STATE_FILE'' @ [CHR 0x5C] @ ''""'' @ nl @
     ''fi'' @ nl @
     ''echo $CMD''\<close>

definition injectUsbDevices ::
  "deps \<Rightarrow> Arch \<Rightarrow> SKVMGuestInstance \<Rightarrow> string \<Rightarrow> error + string list" where
  \<comment> \<open>the block "inject usb devices": the value of \<open>input.Devices\<close>;
      \<open>s.Desc.Usb.Id\<close> panics on a nil \<open>Usb\<close>\<close>
  "injectUsbDevices d qemuArch s osName =
     (if qemuArch = Arch_aarch64
      then (case UsbId (Desc s) of
              None \<Rightarrow> Inl (Panic ''nil usb controller'')
            | Some usbId \<Rightarrow>
                Inr [''usb-tablet,id=input0,bus='' @ usbId @ ''.0,port=1'',
                     ''usb-kbd,id=input1,bus='' @ usbId @ ''.0,port=2''])
      else (let devices = [];
                devices =
                  (if \<not> IsInStringArray (getOsDistribution s) [OS_NAME_OPENWRT, OS_NAME_CIRROS] \<and>
                      \<not> IsOldWindows s \<and> \<not> isWindows10 d s \<and> \<not> disableUsbKbd s
                   then devices @ [''usb-kbd''] else devices);
                devices =
                  (if osName = OS_NAME_ANDROID then devices @ [''usb-mouse'']
                   else if \<not> IsOldWindows s then devices @ [''usb-tablet'']
                   else devices)
            in Inr devices))"

definition injectMigrate :: "SKVMGuestInstance \<Rightarrow> StartData \<Rightarrow> error + (bool \<times> uint \<times> bool)" where
  \<comment> \<open>the block on \<open>need_migrate\<close>: \<open>NeedMigrate\<close>, \<open>LiveMigratePort\<close>, \<open>LiveMigrateUseTLS\<close>;
      \<open>*s.LiveMigrateDestPort\<close> panics on a nil pointer\<close>
  "injectMigrate s data =
     (if need_migrate data
      then (case LiveMigrateDestPort s of
              None \<Rightarrow> Inl (Panic ''nil LiveMigrateDestPort'')
            | Some port \<Rightarrow> Inr (True, port, live_migrate_use_tls data))
      else if IsSlave (Desc s)
      then (case LiveMigrateDestPort s of
              None \<Rightarrow> Inl (Panic ''nil LiveMigrateDestPort'')
            | Some port \<Rightarrow> Inr (False, port, False))
      else Inr (False, 0, False))"

definition generateStart ::
  "deps \<Rightarrow> host \<Rightarrow> SKVMGuestInstance \<Rightarrow> string list \<Rightarrow> StartData \<Rightarrow>
     error + (string \<times> GenerateStartOptionsInput)" where
  \<comment> \<open>\<open>generateStartScript\<close>, returning with the script the input it has handed to
      \<open>qemu.GenerateStartOptions\<close>; \<open>order\<close> is the order in which \<open>extraOptions\<close>
      visits the keys of \<open>ExtraOptions\<close>\<close>
  \<open>generateStart d h s order data =
     bind_err (saveEncryptKey d s data) (\<lambda>encryptKeyPath.
     let vncPort = vnc_port data;
         qemuVersion = selectQemuVersion d data;
         qemuArch = (if IsAarch64 h then Arch_aarch64 else Arch_x86_64)
     in
     bind_err (nicDownScripts_loop d h s (Nics (Desc s)) []) (\<lambda>cmd.
     let cmd = (if IsHugepagesEnabled h then cmd @ hugepages_mount h s else cmd);
         cmd = cmd @ ''sleep 1'' @ nl;
         cmd = cmd @ ''echo '' @ Sprintf_u vncPort @ '' > '' @ GetVncFilePath d s @ nl
     in
     bind_err (wrap_err (generateDiskSetupScripts d s (Disks (Desc s))) ''generateDiskSetupScripts'')
       (\<lambda>diskScripts.
     let cmd = cmd @ diskScripts
     in
     bind_err (wrap_err (generateSRIOVInitScripts d s) ''generateSRIOVInitScripts'')
       (\<lambda>sriovInitScripts.
     let cmd = cmd @ sriovInitScripts;
         cmd = cmd @ ''STATE_FILE=`ls -d '' @ getStateFilePathRootPrefix d s @ ''* | head -n 1`'' @ nl;
         cmd = cmd @ ''PID_FILE='' @ GetPidFilePath d s @ nl;
         qemuCmd = selectQemuCmd d qemuVersion;
         cmd = cmd @ ''DEFAULT_QEMU_CMD='' @ [CHR 0x27] @ qemuCmd @ [CHR 0x27] @ nl;
         cmd = cmd @ ''QEMU_CMD=$DEFAULT_QEMU_CMD'' @ nl;
         cmd = cmd @ kvm_arg_line d h;
         cmd = cmd @ nic_helper_functions (VpcOvnEncapCostStr d);
         cmd = cmd @ ''CMD="$QEMU_CMD $QEMU_CMD_KVM_ARG''
     in
     bind_err (injectUsbDevices d qemuArch s (GetOsName s)) (\<lambda>devices.
     bind_err (injectMigrate s data) (\<lambda>(needMigrate, liveMigratePort, liveMigrateUseTLS).
     let input =
           \<lparr>GuestDesc = Desc s,
            OsName = GetOsName s,
            OVNIntegrationBridge = OvnIntegrationBridge (options d),
            HomeDir_in = HomeDir d s,
            HugepagesEnabled = IsHugepagesEnabled h,
            EnableMemfd = isMemcleanEnabled s,
            PidFilePath = GetPidFilePath d s,
            EncryptKeyPath = encryptKeyPath,
            VNCPort = vncPort,
            QemuVersion = qemuVersion,
            QemuArch = qemuArch,
            EnableLog = EnableQemuDebugLog (options d),
            HMPMonitor = \<lparr>MonId = ''hmqmon'', MonPort = GetHmpMonitorPort d s vncPort,
                          MonMode = MODE_READLINE\<rparr>,
            QMPMonitor = \<lparr>MonId = ''qmqmon'', MonPort = GetQmpMonitorPort d s vncPort,
                          MonMode = MODE_CONTROL\<rparr>,
            EnableUUID = EnableVmUuid (options d),
            OVMFPath = (if Bios (Desc s) = BIOS_UEFI then OvmfPath (options d) else []),
            Devices = devices,
            IsVdiSpice_in = IsVdiSpice s,
            SpicePort = 5900 + vncPort,
            VNCPassword = SetVncPassword (options d),
            IsKVMSupport = IsKvmSupport h,
            ExtraOptions_in = [extraOptions s order],
            NeedMigrate = needMigrate,
            LiveMigratePort = liveMigratePort,
            LiveMigrateUseTLS = liveMigrateUseTLS\<rparr>
     in
     bind_err (wrap_err (GenerateStartOptions d input) ''GenerateStartCommand'') (\<lambda>qemuOpts.
     let cmd = cmd @ '' '' @ qemuOpts;
         cmd = cmd @ ''"'' @ nl;
         cmd = cmd @ incoming_tail
     in Inr (cmd, input))))))))\<close>

definition generateStartScript ::
  "deps \<Rightarrow> host \<Rightarrow> SKVMGuestInstance \<Rightarrow> string list \<Rightarrow> StartData \<Rightarrow> error + string" where
  "generateStartScript d h s order data =
     bind_err (generateStart d h s order data) (\<lambda>(cmd, input). Inr cmd)"

text \<open>
  The call also sets \<open>s.LiveMigrateUseTls\<close> when both migration flags are true. No
  text of the script depends on that field, and the model leaves the write out.
\<close>

subsection \<open>Command line unification\<close>

record Option =
  Key :: string
  Value :: string

text \<open>
  Modelled from the spec: package \<open>qemutils\<close> (type \<open>Cmdline\<close> with \<open>NewCmdline\<close>,
  \<open>ToString\<close>, \<open>FilterOption\<close> and \<open>AddOption\<close>) is not part of the sources at hand.
  After the spec, "a command line is modeled as an ordered sequence of such options":
  a \<open>Cmdline\<close> is the list of its options. The text format, which the spec does not
  describe, stays a parameter: \<open>NewCmdline\<close> parses a text or fails, \<open>ToString\<close>
  serialises. \<open>FilterOption\<close> removes the options on which the filter answers true,
  calling it once on every option in order ("filtering out migration/port/socket/daemonize
  options into a side list"); \<open>AddOption\<close> appends ("re-append the current host's
  whitelisted dynamic options").
\<close>

type_synonym Cmdline = "Option list"

record qemutils =
  NewCmdline :: "string \<Rightarrow> error + Cmdline"
  ToString :: "Cmdline \<Rightarrow> string"

definition FilterOption :: "(Option \<Rightarrow> bool) \<Rightarrow> Cmdline \<Rightarrow> Cmdline" where
  "FilterOption f cl = filter (\<lambda>opt. \<not> f opt) cl"

definition AddOption :: "Cmdline \<Rightarrow> Option list \<Rightarrow> Cmdline" where
  "AddOption cl opts = cl @ opts"

text \<open>
  The third-party library \<open>diffmatchpatch\<close>, with its types of diffs and patches, is a
  parameter as well.
\<close>

record ('diff, 'patch) diffmatchpatch =
  DiffMain :: "string \<Rightarrow> string \<Rightarrow> bool \<Rightarrow> 'diff list"
  PatchMake :: "string \<Rightarrow> 'diff list \<Rightarrow> 'patch list"
  PatchApply :: "'patch list \<Rightarrow> string \<Rightarrow> string \<times> bool list"

definition valsMatch :: "string list" where
  "valsMatch = [''socket,id=hmqmondev'', ''socket,id=hmpmondev'',
                ''socket,id=qmqmondev'', ''socket,id=qmpmondev'']"

definition dynamic_option :: "Option \<Rightarrow> bool" where
  \<comment> \<open>the answer of the filter function literal in \<open>parseCmdline\<close>\<close>
  "dynamic_option o1 =
     (if Key o1 = ''incoming''
      then prefix ''tcp:'' (Value o1) \<or> prefix ''defer'' (Value o1)
      else if Key o1 = ''vnc'' \<or> Key o1 = ''spice'' \<or> Key o1 = ''daemonize''
      then True
      else if Key o1 = ''chardev''
      then list_ex (\<lambda>valM. prefix valM (Value o1)) valsMatch
      else False)"

definition parseCmdline :: "qemutils \<Rightarrow> string \<Rightarrow> error + (Cmdline \<times> Option list)" where
  \<comment> \<open>the second component is \<open>filterOpts\<close>: the filter appends to it every option on
      which it answers true\<close>
  "parseCmdline q input =
     (case NewCmdline q input of
        Inl err \<Rightarrow> Inl (Wrapf err ''NewCmdline %q'' [input])
      | Inr cl \<Rightarrow> Inr (FilterOption dynamic_option cl, filter dynamic_option cl))"

definition u_unifyMigrateQemuCmdline ::
  "('diff, 'patch) diffmatchpatch \<Rightarrow> string \<Rightarrow> string \<Rightarrow> string" where
  \<comment> \<open>the method \<open>_unifyMigrateQemuCmdline\<close>\<close>
  "u_unifyMigrateQemuCmdline dmp cur src =
     (let diffs = DiffMain dmp cur src False;
          patch = PatchMake dmp cur diffs;
          (newStr, applied) = PatchApply dmp patch cur
      in newStr)"

definition unifyCmdline ::
  "qemutils \<Rightarrow> ('diff, 'patch) diffmatchpatch \<Rightarrow> string \<Rightarrow> string \<Rightarrow> error + Cmdline" where
  \<comment> \<open>\<open>unifyMigrateQemuCmdline\<close> up to \<open>unifyCl.AddOption(curFilterOpts...)\<close>: the
      value of \<open>unifyCl\<close>\<close>
  "unifyCmdline q dmp cur src =
     (case parseCmdline q cur of
        Inl err \<Rightarrow> Inl (Wrapf err ''parseCmdline current %q'' [cur])
      | Inr (curCl, curFilterOpts) \<Rightarrow>
     (case parseCmdline q src of
        Inl err \<Rightarrow> Inl (Wrapf err ''parseCmdline source %q'' [src])
      | Inr (srcCl, srcFilterOpts) \<Rightarrow>
     (let unifyStr = u_unifyMigrateQemuCmdline dmp (ToString q curCl) (ToString q srcCl)
      in case parseCmdline q unifyStr of
           Inl err \<Rightarrow> Inl (Wrapf err ''parseCmdline unitfy %q'' [unifyStr])
         | Inr (unifyCl, unifyFilterOpts) \<Rightarrow> Inr (AddOption unifyCl curFilterOpts))))"

definition unifyMigrateQemuCmdline ::
  "qemutils \<Rightarrow> ('diff, 'patch) diffmatchpatch \<Rightarrow> string \<Rightarrow> string \<Rightarrow> error + string" where
  "unifyMigrateQemuCmdline q dmp cur src =
     bind_err (unifyCmdline q dmp cur src) (\<lambda>unifyCl. Inr (ToString q unifyCl))"

subsection \<open>The option renderer and the binary lookup, after the spec\<close>

text \<open>
  Modelled from the spec: \<open>qemu.GenerateStartOptions\<close> is not part of the sources at
  hand. After the spec (4.2, step 9, and the generated command line of section 6) it
  renders the USB devices and the extra free-form flags and, when the launch arrives via
  migration, appends an incoming clause with the TCP listen address. The flags for CPU,
  machine, memory, monitors, display, UUID and firmware are left out of this model; it
  is one value of the parameter \<open>GenerateStartOptions\<close>, used to evaluate the renderer.
\<close>

definition spec_GenerateStartOptions :: "GenerateStartOptionsInput \<Rightarrow> error + string" where
  "spec_GenerateStartOptions input =
     Inr (concat (map (\<lambda>dev. '' -device '' @ dev) (Devices input)) @
          concat (ExtraOptions_in input) @
          (if NeedMigrate input
           then '' -incoming tcp:0:'' @ Sprintf_u (LiveMigratePort input)
           else []))"


subsection \<open>Running the start script\<close>

































section \<open>Concrete guests and hosts\<close>

definition guest0 :: SKVMGuestInstance where
  "guest0 = \<lparr>Desc = \<lparr>Uuid = ''u1'', Cpu = 2, Mem_MB = 4096, Machine = [], Bios = [], Vdi = [],
       IsSlave = False, Nics = [], Disks = [], Metadata = Map.empty, ExtraOptions = Map.empty,
       UsbId = Some ''usb'', CpuDesc = None, MemDesc = None\<rparr>,
     LiveMigrateDestPort = None, LiveMigrateUseTls = False\<rparr>"

definition macos_guest :: SKVMGuestInstance where
  "macos_guest = guest0\<lparr>Desc := (Desc guest0)\<lparr>Metadata := [''os_name'' \<mapsto> OS_NAME_MACOS]\<rparr>\<rparr>"

definition x86_host :: host where
  "x86_host = \<lparr>IsAarch64 = False, IsKvmSupport = True, IsHugepagesEnabled = False,
     HugepageSizeKb = 2048, GetCpuArchitecture = ''x86_64'', GetBridgeDev = [''br0'' \<mapsto> ''br0'']\<rparr>"

definition arm_host :: host where
  "arm_host = x86_host\<lparr>IsAarch64 := True, GetCpuArchitecture := ''aarch64''\<rparr>"

definition archMan0 :: archMan where
  "archMan0 = \<lparr>GenerateCpuDesc = (\<lambda>n s. Inr \<lparr>Accel = ''kvm''\<rparr>),
     GenerateMemDesc = \<lparr>SizeMB = 0, Mem = None, MemSlots = []\<rparr>\<rparr>"

definition options0 :: HostOptions where
  "options0 = \<lparr>OvnIntegrationBridge = ''brvpc'', DefaultQemuVersion = ''4.2.0'', DisableKVM = False,
     EnableQemuDebugLog = False, EnableVmUuid = True, OvmfPath = ''/opt/OVMF.fd'',
     SetVncPassword = False\<rparr>"

definition ascii_lower :: "char \<Rightarrow> char" where
  "ascii_lower c =
     (let n = (of_char c :: nat) in if 65 \<le> n \<and> n \<le> 90 then char_of (n + 32) else c)"

text \<open>
  The collaborators of the examples. Their \<open>path_Join\<close> and \<open>ToLower\<close> agree with Go's on
  the texts of the examples, which are clean ASCII paths and names.
\<close>

definition deps0 :: deps where
  "deps0 = \<lparr>options = options0,
     HomeDir = (\<lambda>s. ''/g/'' @ Uuid (Desc s)),
     GetPidFilePath = (\<lambda>s. ''/g/'' @ Uuid (Desc s) @ ''/pid''),
     GetVncFilePath = (\<lambda>s. ''/g/'' @ Uuid (Desc s) @ ''/vnc''),
     getStateFilePathRootPrefix = (\<lambda>s. ''/g/'' @ Uuid (Desc s) @ ''/STATEFILE''),
     getEncryptKeyPath = (\<lambda>s. ''/g/'' @ Uuid (Desc s) @ ''/key''),
     saveEncryptKeyFile = (\<lambda>s key. None),
     generateDiskSetupScripts = (\<lambda>s disks. Inr []),
     generateSRIOVInitScripts = (\<lambda>s. Inr []),
     GetHmpMonitorPort = (\<lambda>s vncPort. vncPort + 55900),
     GetQmpMonitorPort = (\<lambda>s vncPort. vncPort + 56100),
     path_Join = join_with ''/'',
     ToLower = map ascii_lower,
     GetQemu = (\<lambda>version. if version = [] then ''/usr/bin/qemu'' else ''/usr/local/qemu-'' @ version @ ''/bin/qemu''),
     VpcOvnEncapCostStr = ''58'',
     ARCH_X86 = [''x86_64'', ''i386''],
     GenerateStartOptions = spec_GenerateStartOptions\<rparr>"

definition nic_virtio :: SGuestNetwork where
  "nic_virtio = \<lparr>Ifname = ''tap0'', Bridge = ''br0'', Driver = ''virtio'', Mac = ''00:22:0a:00:00:01'',
     Ip = ''10.0.0.1''\<rparr>"

definition nic_vfio :: SGuestNetwork where
  "nic_vfio = \<lparr>Ifname = ''vf1'', Bridge = ''br0'', Driver = NETWORK_DRIVER_VFIO,
     Mac = ''00:22:0a:00:00:02'', Ip = ''10.0.0.2''\<rparr>"

definition nic_guest :: SKVMGuestInstance where
  "nic_guest = guest0\<lparr>Desc := (Desc guest0)\<lparr>Nics := [nic_vfio, nic_virtio]\<rparr>\<rparr>"

definition data0 :: StartData where
  "data0 = \<lparr>encrypt_key = None, vnc_port = 1, qemu_version = None, need_migrate = False,
     live_migrate_use_tls = False\<rparr>"

definition dimm_1g :: MemoryDeviceInfo where
  "dimm_1g = \<lparr>Type = ''dimm'', DataID = Some ''dimm0'', DataSize = 1073741824, DataMemdev = ''/objects/mem0''\<rparr>"

definition android_guest :: SKVMGuestInstance where
  "android_guest = guest0\<lparr>Desc := (Desc guest0)\<lparr>Metadata := [''os_name'' \<mapsto> OS_NAME_ANDROID]\<rparr>\<rparr>"




definition opts_guest :: SKVMGuestInstance where
  "opts_guest = guest0\<lparr>Desc := (Desc guest0)
     \<lparr>ExtraOptions := [''smp'' \<mapsto> JSONValue ''4'', ''m'' \<mapsto> JSONValue ''2048'']\<rparr>\<rparr>"




subsection \<open>A reference instance of the command line libraries\<close>

text \<open>
  A small implementation of the two library interfaces, used to evaluate the theorems on
  concrete command lines. Its text format puts a blank before every token; an option is
  the token \<open>-key\<close>, followed by its value unless the value is empty.
\<close>

definition wf_option :: "Option \<Rightarrow> bool" where
  "wf_option opt \<longleftrightarrow>
     CHR '' '' \<notin> set (Key opt) \<and> CHR '' '' \<notin> set (Value opt) \<and>
     (Value opt = [] \<or> hd (Value opt) \<noteq> CHR ''-'')"

definition option_tokens :: "Option \<Rightarrow> string list" where
  "option_tokens opt = (CHR ''-'' # Key opt) # (if Value opt = [] then [] else [Value opt])"

definition ref_ToString :: "Cmdline \<Rightarrow> string" where
  "ref_ToString cl = concat (map (\<lambda>t. CHR '' '' # t) (concat (map option_tokens cl)))"

fun tokens_from :: "string \<Rightarrow> string \<Rightarrow> string list" where
  \<comment> \<open>the tokens of a text split at every blank; the second argument is the token begun\<close>
  "tokens_from [] cur = [cur]"
| "tokens_from (c # cs) cur =
     (if c = CHR '' '' then cur # tokens_from cs [] else tokens_from cs (cur @ [c]))"

fun parse_tokens :: "string list \<Rightarrow> error + Cmdline" where
  "parse_tokens [] = Inr []"
| "parse_tokens [t] =
     (if t \<noteq> [] \<and> hd t = CHR ''-'' then Inr [\<lparr>Key = tl t, Value = []\<rparr>]
      else Inl (Errorf ''unexpected token %s'' [t]))"
| "parse_tokens (t # v # ts) =
     (if \<not> (t \<noteq> [] \<and> hd t = CHR ''-'') then Inl (Errorf ''unexpected token %s'' [t])
      else if v \<noteq> [] \<and> hd v \<noteq> CHR ''-''
      then (case parse_tokens ts of
              Inl err \<Rightarrow> Inl err
            | Inr cl \<Rightarrow> Inr (\<lparr>Key = tl t, Value = v\<rparr> # cl))
      else (case parse_tokens (v # ts) of
              Inl err \<Rightarrow> Inl err
            | Inr cl \<Rightarrow> Inr (\<lparr>Key = tl t, Value = []\<rparr> # cl)))"

definition ref_NewCmdline :: "string \<Rightarrow> error + Cmdline" where
  "ref_NewCmdline text =
     (case text of
        [] \<Rightarrow> Inr []
      | c # cs \<Rightarrow>
          if c = CHR '' '' then parse_tokens (tokens_from cs [])
          else Inl (Errorf ''unexpected text %s'' [text]))"

definition ref_qemutils :: qemutils where
  "ref_qemutils = \<lparr>NewCmdline = ref_NewCmdline, ToString = ref_ToString\<rparr>"

datatype Diff = DiffDelete string | DiffInsert string | DiffEqual string

fun apply_diffs :: "Diff list \<Rightarrow> string \<Rightarrow> string" where
  "apply_diffs [] text = text"
| "apply_diffs (DiffDelete t # ds) text = apply_diffs ds (drop (length t) text)"
| "apply_diffs (DiffInsert t # ds) text = t @ apply_diffs ds text"
| "apply_diffs (DiffEqual t # ds) text = take (length t) text @ apply_diffs ds (drop (length t) text)"

definition ref_dmp :: "(Diff, Diff list) diffmatchpatch" where
  "ref_dmp =
     \<lparr>DiffMain = (\<lambda>text1 text2 checklines.
                    if text1 = text2 then [DiffEqual text1] else [DiffDelete text1, DiffInsert text2]),
      PatchMake = (\<lambda>text1 diffs. [diffs]),
      PatchApply = (\<lambda>patches text. (fold apply_diffs patches text, map (\<lambda>p. True) patches))\<rparr>"

definition cur_cmdline :: string where
  "cur_cmdline = '' -name vm1 -vnc :1 -m 2G -incoming tcp:0:4396 -daemonize''"

definition src_cmdline :: string where
  "src_cmdline = '' -name vm1 -m 4G -vnc :7 -incoming defer -rtc base=utc''"
section \<open>Properties\<close>

subsection \<open>Machine type fix-up\<close>

text \<open>
  C6, as stated, fails: a macOS guest on an aarch64 host leaves the fix-up with the
  ARM-virt machine type, since the aarch64 branch runs after the macOS branch and
  replaces Q35.
\<close>

theorem fixGuestMachineType_macos_aarch64_not_q35:
  "GetOsName macos_guest = OS_NAME_MACOS \<and>
   Machine (Desc (fixGuestMachineType arm_host macos_guest)) \<noteq> VM_MACHINE_TYPE_Q35"
  by (simp add: fixGuestMachineType_def macos_guest_def guest0_def arm_host_def x86_host_def
      GetOsName_def IsInStringArray_def VM_MACHINE_TYPE_Q35_def VM_MACHINE_TYPE_ARM_VIRT_def
      VM_MACHINE_TYPE_PC_def)

text \<open>
  C6, amended: after \<open>fixGuestMachineType\<close> a descriptor on an aarch64 host with the empty
  machine type has Machine = ARM-virt and Bios = UEFI; a macOS guest has Bios = UEFI and
  Machine = Q35 on a host that is not aarch64, and Machine = ARM-virt on an aarch64 host;
  \<open>initCpuDesc\<close> hands the fixed-up instance to the architecture strategy and stores
  the CPU descriptor in it.
\<close>

theorem fixGuestMachineType_coerces:
  "(IsAarch64 h \<and> Machine (Desc s) = [] \<longrightarrow>
      Machine (Desc (fixGuestMachineType h s)) = VM_MACHINE_TYPE_ARM_VIRT \<and>
      Bios (Desc (fixGuestMachineType h s)) = BIOS_UEFI) \<and>
   (GetOsName s = OS_NAME_MACOS \<and> \<not> IsAarch64 h \<longrightarrow>
      Machine (Desc (fixGuestMachineType h s)) = VM_MACHINE_TYPE_Q35 \<and>
      Bios (Desc (fixGuestMachineType h s)) = BIOS_UEFI) \<and>
   (GetOsName s = OS_NAME_MACOS \<and> IsAarch64 h \<longrightarrow>
      Machine (Desc (fixGuestMachineType h s)) = VM_MACHINE_TYPE_ARM_VIRT \<and>
      Bios (Desc (fixGuestMachineType h s)) = BIOS_UEFI) \<and>
   initCpuDesc am h s =
     (case GenerateCpuDesc am (Cpu (Desc (fixGuestMachineType h s))) (fixGuestMachineType h s) of
        Inl err \<Rightarrow> (Some err, fixGuestMachineType h s)
      | Inr c \<Rightarrow> (None, (fixGuestMachineType h s)
                         \<lparr>Desc := (Desc (fixGuestMachineType h s))\<lparr>CpuDesc := Some c\<rparr>\<rparr>))"
proof (intro conjI)
  show "IsAarch64 h \<and> Machine (Desc s) = [] \<longrightarrow>
      Machine (Desc (fixGuestMachineType h s)) = VM_MACHINE_TYPE_ARM_VIRT \<and>
      Bios (Desc (fixGuestMachineType h s)) = BIOS_UEFI"
    by (simp add: fixGuestMachineType_def Let_def IsInStringArray_def)
  show "GetOsName s = OS_NAME_MACOS \<and> \<not> IsAarch64 h \<longrightarrow>
      Machine (Desc (fixGuestMachineType h s)) = VM_MACHINE_TYPE_Q35 \<and>
      Bios (Desc (fixGuestMachineType h s)) = BIOS_UEFI"
    by (simp add: fixGuestMachineType_def Let_def)
  show "GetOsName s = OS_NAME_MACOS \<and> IsAarch64 h \<longrightarrow>
      Machine (Desc (fixGuestMachineType h s)) = VM_MACHINE_TYPE_ARM_VIRT \<and>
      Bios (Desc (fixGuestMachineType h s)) = BIOS_UEFI"
    by (simp add: fixGuestMachineType_def Let_def IsInStringArray_def)
  show "initCpuDesc am h s =
     (case GenerateCpuDesc am (Cpu (Desc (fixGuestMachineType h s))) (fixGuestMachineType h s) of
        Inl err \<Rightarrow> (Some err, fixGuestMachineType h s)
      | Inr c \<Rightarrow> (None, (fixGuestMachineType h s)
                         \<lparr>Desc := (Desc (fixGuestMachineType h s))\<lparr>CpuDesc := Some c\<rparr>\<rparr>))"
    by (simp add: initCpuDesc_def Let_def)
qed

theorem fixGuestMachineType_coerces_witness:
  "Machine (Desc (fixGuestMachineType arm_host guest0)) = VM_MACHINE_TYPE_ARM_VIRT \<and>
   Bios (Desc (fixGuestMachineType arm_host guest0)) = BIOS_UEFI \<and>
   Machine (Desc (fixGuestMachineType x86_host macos_guest)) = VM_MACHINE_TYPE_Q35 \<and>
   Bios (Desc (fixGuestMachineType x86_host macos_guest)) = BIOS_UEFI \<and>
   Machine (Desc (fixGuestMachineType arm_host macos_guest)) = VM_MACHINE_TYPE_ARM_VIRT \<and>
   CpuDesc (Desc (snd (initCpuDesc archMan0 arm_host guest0))) = Some \<lparr>Accel = ''kvm''\<rparr>"
proof -
  have a: "IsAarch64 arm_host \<and> Machine (Desc guest0) = []"
    by (simp add: arm_host_def x86_host_def guest0_def)
  have m: "GetOsName macos_guest = OS_NAME_MACOS"
    by (simp add: GetOsName_def macos_guest_def guest0_def)
  have x: "\<not> IsAarch64 x86_host"
    by (simp add: x86_host_def)
  note t1 = fixGuestMachineType_coerces [of arm_host guest0 archMan0]
  note t2 = fixGuestMachineType_coerces [of x86_host macos_guest archMan0]
  note t3 = fixGuestMachineType_coerces [of arm_host macos_guest archMan0]
  from t1 a have c1: "Machine (Desc (fixGuestMachineType arm_host guest0)) = VM_MACHINE_TYPE_ARM_VIRT"
    and c2: "Bios (Desc (fixGuestMachineType arm_host guest0)) = BIOS_UEFI"
    by blast+
  from t2 m x have c3: "Machine (Desc (fixGuestMachineType x86_host macos_guest)) = VM_MACHINE_TYPE_Q35"
    and c4: "Bios (Desc (fixGuestMachineType x86_host macos_guest)) = BIOS_UEFI"
    by blast+
  from t3 m a have c5: "Machine (Desc (fixGuestMachineType arm_host macos_guest)) = VM_MACHINE_TYPE_ARM_VIRT"
    by blast
  from t1 have c6: "CpuDesc (Desc (snd (initCpuDesc archMan0 arm_host guest0))) = Some \<lparr>Accel = ''kvm''\<rparr>"
    by (simp add: archMan0_def)
  from c1 c2 c3 c4 c5 c6 show ?thesis by blast
qed

subsection \<open>Reconstruction of the memory descriptor\<close>

lemma memSlots_loop_Inr:
  "memSlots_loop t devs m sl = Inr (m', sl') \<Longrightarrow>
     m' = m - sum_list (map sizeMB devs) \<and>
     map SlotSizeMB sl' = map SlotSizeMB sl @ map sizeMB devs \<and>
     (\<forall>d\<in>set devs. Type d = ''dimm'' \<and> DataID d \<noteq> None)"
proof (induction devs arbitrary: m sl)
  case Nil
  then show ?case by simp
next
  case (Cons d ds)
  from Cons.prems have ok: "Type d = ''dimm''" "DataID d \<noteq> None"
    by (auto split: if_splits)
  with Cons.prems obtain x where
    rec: "memSlots_loop t ds (m - sizeMB d) (sl @ [x]) = Inr (m', sl')" and x: "SlotSizeMB x = sizeMB d"
    by (auto split: if_splits)
  from Cons.IH [OF rec] x ok show ?case
    by (simp add: algebra_simps)
qed

lemma memSlots_loop_Inl:
  "memSlots_loop t devs m sl = Inl e \<Longrightarrow> \<exists>d\<in>set devs. Type d \<noteq> ''dimm'' \<or> DataID d = None"
  by (induction devs arbitrary: m sl) (auto split: if_splits)

lemma initMemDesc_MemDesc:
  "\<exists>obj. MemDesc (Desc (initMemDesc am h s m)) =
            Some ((GenerateMemDesc am)\<lparr>SizeMB := m, Mem := Some obj\<rparr>) \<and>
         ObjType obj = memObjType h s \<and>
         Options obj ''size'' = Some (Sprintf_d m @ ''M'')"
  by (auto simp: initMemDesc_def memObjType_def NewObject_def Let_def)

text \<open>
  C5: when \<open>initMemDescFromMemoryInfo\<close> succeeds, the sizes of the created memory slots
  plus the size of the base memory object equal the configured memory \<open>Desc.Mem\<close> (in
  Go's \<open>int64\<close> arithmetic), the base size is positive and is the \<open>size\<close> option of
  the base memory object, and there is one slot per device; it succeeds exactly when
  every device is a \<open>dimm\<close> with an id and the memory left for the base object is
  positive; otherwise it returns an error and leaves the instance as it was, with no
  memory descriptor installed.
\<close>

theorem initMemDescFromMemoryInfo_reconciles:
  assumes r: "r = initMemDescFromMemoryInfo am h s devs"
  shows "(fst r = None \<longleftrightarrow>
            (\<forall>d\<in>set devs. Type d = ''dimm'' \<and> DataID d \<noteq> None) \<and>
            0 <s Mem_MB (Desc s) - sum_list (map sizeMB devs)) \<and>
         (fst r = None \<longrightarrow>
            (\<exists>md obj. MemDesc (Desc (snd r)) = Some md \<and>
                  map SlotSizeMB (MemSlots md) = map sizeMB devs \<and>
                  sum_list (map SlotSizeMB (MemSlots md)) + SizeMB md = Mem_MB (Desc s) \<and>
                  0 <s SizeMB md \<and>
                  Mem md = Some obj \<and> ObjType obj = memObjType h s \<and>
                  Options obj ''size'' = Some (Sprintf_d (SizeMB md) @ ''M''))) \<and>
         (fst r \<noteq> None \<longrightarrow> snd r = s)"
proof (cases "memSlots_loop (memObjType h s) devs (Mem_MB (Desc s)) []")
  case (Inl e)
  from memSlots_loop_Inl [OF Inl] Inl r show ?thesis
    by (auto simp: initMemDescFromMemoryInfo_def)
next
  case (Inr p)
  obtain m' sl' where p: "p = (m', sl')" by (cases p)
  from memSlots_loop_Inr [OF Inr [unfolded p]]
  have m': "m' = Mem_MB (Desc s) - sum_list (map sizeMB devs)"
    and sl': "map SlotSizeMB sl' = map sizeMB devs"
    and ok: "\<forall>d\<in>set devs. Type d = ''dimm'' \<and> DataID d \<noteq> None"
    by simp_all
  show ?thesis
  proof (cases "m' \<le>s 0")
    case True
    with Inr p r m' show ?thesis
      by (auto simp: initMemDescFromMemoryInfo_def word_sless_alt word_sle_eq)
  next
    case False
    then have pos: "0 <s m'" by (simp add: word_sless_alt word_sle_eq)
    from False Inr p r have fst: "fst r = None"
      by (simp add: initMemDescFromMemoryInfo_def Let_def)
    from initMemDesc_MemDesc [of am h s m'] obtain obj where
      i: "MemDesc (Desc (initMemDesc am h s m')) =
            Some ((GenerateMemDesc am)\<lparr>SizeMB := m', Mem := Some obj\<rparr>)"
      and o: "ObjType obj = memObjType h s" "Options obj ''size'' = Some (Sprintf_d m' @ ''M'')"
      by blast
    from False Inr p r i
    have md: "MemDesc (Desc (snd r)) =
        Some ((GenerateMemDesc am)\<lparr>SizeMB := m', Mem := Some obj, MemSlots := sl'\<rparr>)"
      by (simp add: initMemDescFromMemoryInfo_def Let_def)
    have "sum_list (map sizeMB devs) + m' = Mem_MB (Desc s)"
      by (simp add: m')
    with fst md sl' pos ok m' o show ?thesis by simp
  qed
qed

theorem initMemDescFromMemoryInfo_reconciles_witness:
  "fst (initMemDescFromMemoryInfo archMan0 x86_host guest0 [dimm_1g]) = None \<and>
   (\<exists>md. MemDesc (Desc (snd (initMemDescFromMemoryInfo archMan0 x86_host guest0 [dimm_1g]))) = Some md \<and>
         map SlotSizeMB (MemSlots md) = [1024] \<and> SizeMB md = 3072) \<and>
   fst (initMemDescFromMemoryInfo archMan0 x86_host guest0 [dimm_1g, dimm_1g, dimm_1g, dimm_1g]) \<noteq> None \<and>
   snd (initMemDescFromMemoryInfo archMan0 x86_host guest0 [dimm_1g, dimm_1g, dimm_1g, dimm_1g]) = guest0"
proof -
  have sz: "sizeMB dimm_1g = 1024"
    by (simp add: sizeMB_def go_div_def dimm_1g_def signed_divide_int_def)
  have ok: "Type dimm_1g = ''dimm'' \<and> DataID dimm_1g \<noteq> None"
    by (simp add: dimm_1g_def)
  have mem: "Mem_MB (Desc guest0) = 4096"
    by (simp add: guest0_def)
  note t1 = initMemDescFromMemoryInfo_reconciles
    [OF refl, of archMan0 x86_host guest0 "[dimm_1g]"]
  note t2 = initMemDescFromMemoryInfo_reconciles
    [OF refl, of archMan0 x86_host guest0 "[dimm_1g, dimm_1g, dimm_1g, dimm_1g]"]
  have pos: "(0::int64) <s 4096 - 1024"
    by (simp add: word_sless_alt)
  from t1 ok sz mem pos
  have a: "fst (initMemDescFromMemoryInfo archMan0 x86_host guest0 [dimm_1g]) = None"
    by simp
  with t1 sz mem obtain md where
    md: "MemDesc (Desc (snd (initMemDescFromMemoryInfo archMan0 x86_host guest0 [dimm_1g]))) = Some md"
    and sl: "map SlotSizeMB (MemSlots md) = [1024]"
    and sum: "sum_list (map SlotSizeMB (MemSlots md)) + SizeMB md = 4096"
    by auto
  from sl sum have "SizeMB md = 4096 - 1024" by simp
  then have b: "SizeMB md = 3072" by simp
  have npos: "\<not> (0::int64) <s 4096 - (1024 + (1024 + (1024 + 1024)))"
    by (simp add: word_sless_alt)
  from t2 sz mem npos
  have c: "fst (initMemDescFromMemoryInfo archMan0 x86_host guest0 [dimm_1g, dimm_1g, dimm_1g, dimm_1g]) \<noteq> None"
    by simp
  with t2 have e: "snd (initMemDescFromMemoryInfo archMan0 x86_host guest0 [dimm_1g, dimm_1g, dimm_1g, dimm_1g]) = guest0"
    by blast
  from md sl b have "\<exists>md. MemDesc (Desc (snd (initMemDescFromMemoryInfo archMan0 x86_host guest0 [dimm_1g]))) = Some md \<and>
         map SlotSizeMB (MemSlots md) = [1024] \<and> SizeMB md = 3072" by (intro exI conjI)
  with a c e show ?thesis by (intro conjI)
qed

subsection \<open>NIC down-scripts in the two scripts\<close>

lemma nicDownScripts_loop_Inr:
  "nicDownScripts_loop d h s nics cmd = Inr out \<Longrightarrow>
     \<exists>lines. map (nicDownScriptLine d h s) (filter (\<lambda>n. Driver n \<noteq> NETWORK_DRIVER_VFIO) nics) = map Inr lines \<and>
             out = cmd @ concat lines"
proof (induction nics arbitrary: cmd)
  case Nil
  then show ?case by simp
next
  case (Cons n ns)
  show ?case
  proof (cases "Driver n = NETWORK_DRIVER_VFIO")
    case True
    with Cons show ?thesis by simp
  next
    case False
    with Cons.prems obtain line where
      l: "nicDownScriptLine d h s n = Inr line" and
      rec: "nicDownScripts_loop d h s ns (cmd @ line) = Inr out"
      by (auto simp: bind_err_def split: sum.splits)
    from Cons.IH [OF rec] obtain lines where
      "map (nicDownScriptLine d h s) (filter (\<lambda>n. Driver n \<noteq> NETWORK_DRIVER_VFIO) ns) = map Inr lines"
      "out = (cmd @ line) @ concat lines" by blast
    with False l have
      "map (nicDownScriptLine d h s) (filter (\<lambda>n. Driver n \<noteq> NETWORK_DRIVER_VFIO) (n # ns)) = map Inr (line # lines) \<and>
       out = cmd @ concat (line # lines)" by simp
    then show ?thesis by blast
  qed
qed

lemma generateStopScript_shape:
  assumes "generateStopScript d h s = Inr stop"
  shows "\<exists>lines. map (nicDownScriptLine d h s) (filter (\<lambda>n. Driver n \<noteq> NETWORK_DRIVER_VFIO) (Nics (Desc s))) = map Inr lines \<and>
      stop = stop_kill_commands d s @ hugepages_umount_loop (Uuid (Desc s)) @ concat lines"
  using nicDownScripts_loop_Inr [of d h s "Nics (Desc s)" "stop_kill_commands d s @ hugepages_umount_loop (Uuid (Desc s))" stop] assms
  by (simp add: generateStopScript_def Let_def)

lemma generateStart_shape:
  assumes "generateStart d h s order data = Inr (start, input)"
  shows "\<exists>lines rest. map (nicDownScriptLine d h s) (filter (\<lambda>n. Driver n \<noteq> NETWORK_DRIVER_VFIO) (Nics (Desc s))) = map Inr lines \<and>
      start = concat lines @ (if IsHugepagesEnabled h then hugepages_mount h s else []) @ ''sleep 1'' @ nl @ rest"
proof -
  from assms obtain cmd where c: "nicDownScripts_loop d h s (Nics (Desc s)) [] = Inr cmd"
    by (auto simp: generateStart_def bind_err_def Let_def split: sum.splits)
  from nicDownScripts_loop_Inr [OF c] obtain lines where
    l: "map (nicDownScriptLine d h s) (filter (\<lambda>n. Driver n \<noteq> NETWORK_DRIVER_VFIO) (Nics (Desc s))) = map Inr lines"
    and cmd: "cmd = concat lines" by auto
  from assms c cmd have "\<exists>rest. start = concat lines @ (if IsHugepagesEnabled h then hugepages_mount h s else []) @ ''sleep 1'' @ nl @ rest"
    by (auto simp: generateStart_def bind_err_def Let_def split: sum.splits prod.splits)
  with l show ?thesis by blast
qed

subsection \<open>Order of the stop script\<close>

lemma map_Inr_decomp:
  assumes "map f (xs @ n # ys) = map Inr lines"
  shows "\<exists>l1 line l2. lines = l1 @ line # l2 \<and> f n = Inr line"
proof -
  from assms have "map f xs @ f n # map f ys = map Inr lines" by simp
  then obtain l1 l2r where "lines = l1 @ l2r" "map Inr l2r = f n # map f ys"
    by (metis append_eq_map_conv)
  then show ?thesis by (cases l2r) (auto intro: sym)
qed

text \<open>
  C2, amended: in the stop script the loop that unmounts and removes the guest's hugepage
  directories stands directly after the commands that kill the process, and the
  down-script invocation of every NIC whose driver is not VFIO stands after that loop.
\<close>

theorem generateStopScript_umount_before_down_scripts:
  assumes stop: "generateStopScript d h s = Inr stop"
    and n: "n \<in> set (Nics (Desc s))"
    and drv: "Driver n \<noteq> NETWORK_DRIVER_VFIO"
  shows "\<exists>line mid post. nicDownScriptLine d h s n = Inr line \<and>
           stop = stop_kill_commands d s @ hugepages_umount_loop (Uuid (Desc s)) @ mid @ line @ post"
proof -
  from generateStopScript_shape [OF stop] obtain lines where
    l: "map (nicDownScriptLine d h s) (filter (\<lambda>n. Driver n \<noteq> NETWORK_DRIVER_VFIO) (Nics (Desc s))) = map Inr lines"
    and s: "stop = stop_kill_commands d s @ hugepages_umount_loop (Uuid (Desc s)) @ concat lines"
    by blast
  from n drv have "n \<in> set (filter (\<lambda>n. Driver n \<noteq> NETWORK_DRIVER_VFIO) (Nics (Desc s)))" by simp
  then obtain xs ys where "filter (\<lambda>n. Driver n \<noteq> NETWORK_DRIVER_VFIO) (Nics (Desc s)) = xs @ n # ys"
    by (auto simp: in_set_conv_decomp)
  with l map_Inr_decomp [of "nicDownScriptLine d h s" xs n ys lines]
  obtain l1 line l2 where "lines = l1 @ line # l2" "nicDownScriptLine d h s n = Inr line" by auto
  with s have "nicDownScriptLine d h s n = Inr line \<and>
     stop = stop_kill_commands d s @ hugepages_umount_loop (Uuid (Desc s)) @ concat l1 @ line @ concat l2"
    by simp
  then show ?thesis by blast
qed

theorem generateStopScript_umount_before_down_scripts_witness:
  "generateStopScript deps0 x86_host nic_guest =
     Inr (stop_kill_commands deps0 nic_guest @ hugepages_umount_loop ''u1'' @
          ''/g/u1/if-down-br0-tap0.sh tap0'' @ nl) \<and>
   nic_virtio \<in> set (Nics (Desc nic_guest)) \<and>
   Driver nic_virtio \<noteq> NETWORK_DRIVER_VFIO \<and>
   (\<exists>line mid post. nicDownScriptLine deps0 x86_host nic_guest nic_virtio = Inr line \<and>
       stop_kill_commands deps0 nic_guest @ hugepages_umount_loop ''u1'' @
          ''/g/u1/if-down-br0-tap0.sh tap0'' @ nl =
       stop_kill_commands deps0 nic_guest @ hugepages_umount_loop (Uuid (Desc nic_guest)) @ mid @ line @ post)"
proof -
  have h1: "generateStopScript deps0 x86_host nic_guest =
     Inr (stop_kill_commands deps0 nic_guest @ hugepages_umount_loop ''u1'' @
          ''/g/u1/if-down-br0-tap0.sh tap0'' @ nl)"
    by (simp add: generateStopScript_def nicDownScriptLine_def getNicDownScriptPath_def bind_err_def
        deps0_def x86_host_def nic_guest_def guest0_def nic_virtio_def nic_vfio_def
        NETWORK_DRIVER_VFIO_def)
  have h2: "nic_virtio \<in> set (Nics (Desc nic_guest))"
    by (simp add: nic_guest_def guest0_def)
  have h3: "Driver nic_virtio \<noteq> NETWORK_DRIVER_VFIO"
    by (simp add: nic_virtio_def NETWORK_DRIVER_VFIO_def)
  from generateStopScript_umount_before_down_scripts [OF h1 h2 h3] h1 h2 h3
  show ?thesis by (intro conjI)
qed

text \<open>
  C2, as stated, fails: for a guest with one VFIO NIC and one virtio NIC the stop script
  is the kill commands, then the umount loop, then the down-script line of the virtio
  NIC, and that line does not occur before the umount loop.
\<close>

theorem generateStopScript_down_script_after_umount:
  "generateStopScript deps0 x86_host nic_guest =
     Inr (stop_kill_commands deps0 nic_guest @ hugepages_umount_loop ''u1'' @
          ''/g/u1/if-down-br0-tap0.sh tap0'' @ nl) \<and>
   nicDownScriptLine deps0 x86_host nic_guest nic_virtio = Inr (''/g/u1/if-down-br0-tap0.sh tap0'' @ nl) \<and>
   sublist ''umount $d'' (hugepages_umount_loop ''u1'') \<and>
   \<not> sublist ''/g/u1/if-down-br0-tap0.sh tap0'' (stop_kill_commands deps0 nic_guest)"
proof (intro conjI)
  show "generateStopScript deps0 x86_host nic_guest =
     Inr (stop_kill_commands deps0 nic_guest @ hugepages_umount_loop ''u1'' @
          ''/g/u1/if-down-br0-tap0.sh tap0'' @ nl)"
    by (simp add: generateStopScript_def nicDownScriptLine_def getNicDownScriptPath_def bind_err_def
        deps0_def x86_host_def nic_guest_def guest0_def nic_virtio_def nic_vfio_def
        NETWORK_DRIVER_VFIO_def)
  show "nicDownScriptLine deps0 x86_host nic_guest nic_virtio = Inr (''/g/u1/if-down-br0-tap0.sh tap0'' @ nl)"
    by (simp add: nicDownScriptLine_def getNicDownScriptPath_def bind_err_def deps0_def x86_host_def
        nic_guest_def guest0_def nic_virtio_def)
  show "sublist ''umount $d'' (hugepages_umount_loop ''u1'')"
    by (simp add: hugepages_umount_loop_def nl_def sublist_code)
  show "\<not> sublist ''/g/u1/if-down-br0-tap0.sh tap0'' (stop_kill_commands deps0 nic_guest)"
    by (simp add: stop_kill_commands_def deps0_def nic_guest_def guest0_def nl_def Sprintf_d_def
        MONITOR_PORT_BASE_def digit_char_def sublist_code)
qed

subsection \<open>VFIO NICs have no down-script line\<close>

lemma generateStartScript_shape:
  assumes "generateStartScript d h s order data = Inr start"
  shows "\<exists>lines rest. map (nicDownScriptLine d h s) (filter (\<lambda>n. Driver n \<noteq> NETWORK_DRIVER_VFIO) (Nics (Desc s))) = map Inr lines \<and>
      start = concat lines @ (if IsHugepagesEnabled h then hugepages_mount h s else []) @ ''sleep 1'' @ nl @ rest"
proof -
  from assms obtain input where "generateStart d h s order data = Inr (start, input)"
    by (auto simp: generateStartScript_def bind_err_def split: sum.splits)
  from generateStart_shape [OF this] show ?thesis .
qed

text \<open>
  C10: both scripts omit the down-script invocation of a NIC whose driver is VFIO. The
  stop script ends, after the umount loop, with the down-script lines of exactly the NICs
  whose driver is not VFIO, in the order of the descriptor; the start script begins with
  the same lines, followed by the hugepage mount (if enabled) and \<open>sleep 1\<close>.
\<close>

theorem down_scripts_cover_non_vfio_nics:
  "(generateStopScript d h s = Inr stop \<longrightarrow>
      (\<exists>lines. map (nicDownScriptLine d h s)
                  (filter (\<lambda>n. Driver n \<noteq> NETWORK_DRIVER_VFIO) (Nics (Desc s))) = map Inr lines \<and>
               stop = stop_kill_commands d s @ hugepages_umount_loop (Uuid (Desc s)) @ concat lines)) \<and>
   (generateStartScript d h s order data = Inr start \<longrightarrow>
      (\<exists>lines rest. map (nicDownScriptLine d h s)
                  (filter (\<lambda>n. Driver n \<noteq> NETWORK_DRIVER_VFIO) (Nics (Desc s))) = map Inr lines \<and>
               start = concat lines @ (if IsHugepagesEnabled h then hugepages_mount h s else []) @
                       ''sleep 1'' @ nl @ rest))"
  using generateStopScript_shape [of d h s stop] generateStartScript_shape [of d h s order data start]
  by blast

theorem down_scripts_cover_non_vfio_nics_witness:
  "\<exists>start lines.
     generateStartScript deps0 x86_host nic_guest [] data0 = Inr start \<and>
     generateStopScript deps0 x86_host nic_guest =
       Inr (stop_kill_commands deps0 nic_guest @ hugepages_umount_loop ''u1'' @
            ''/g/u1/if-down-br0-tap0.sh tap0'' @ nl) \<and>
     filter (\<lambda>n. Driver n \<noteq> NETWORK_DRIVER_VFIO) (Nics (Desc nic_guest)) = [nic_virtio] \<and>
     map (nicDownScriptLine deps0 x86_host nic_guest) [nic_virtio] = map Inr lines \<and>
     stop_kill_commands deps0 nic_guest @ hugepages_umount_loop ''u1'' @
            ''/g/u1/if-down-br0-tap0.sh tap0'' @ nl =
       stop_kill_commands deps0 nic_guest @ hugepages_umount_loop (Uuid (Desc nic_guest)) @ concat lines \<and>
     (\<exists>rest. start = concat lines @ ''sleep 1'' @ nl @ rest)"
proof -
  have "\<exists>rest. generateStartScript deps0 x86_host nic_guest [] data0 =
          Inr (''/g/u1/if-down-br0-tap0.sh tap0'' @ nl @ ''sleep 1'' @ nl @ rest)"
    by (simp add: generateStartScript_def generateStart_def saveEncryptKey_def bind_err_def
        wrap_err_def Let_def nicDownScriptLine_def getNicDownScriptPath_def injectUsbDevices_def
        injectMigrate_def deps0_def x86_host_def nic_guest_def guest0_def nic_virtio_def
        nic_vfio_def data0_def NETWORK_DRIVER_VFIO_def spec_GenerateStartOptions_def)
  then obtain start where h1: "generateStartScript deps0 x86_host nic_guest [] data0 = Inr start"
    by blast
  have h2: "generateStopScript deps0 x86_host nic_guest =
       Inr (stop_kill_commands deps0 nic_guest @ hugepages_umount_loop ''u1'' @
            ''/g/u1/if-down-br0-tap0.sh tap0'' @ nl)"
    by (simp add: generateStopScript_def nicDownScriptLine_def getNicDownScriptPath_def bind_err_def
        deps0_def x86_host_def nic_guest_def guest0_def nic_virtio_def nic_vfio_def
        NETWORK_DRIVER_VFIO_def)
  have f: "filter (\<lambda>n. Driver n \<noteq> NETWORK_DRIVER_VFIO) (Nics (Desc nic_guest)) = [nic_virtio]"
    by (simp add: nic_guest_def guest0_def nic_virtio_def nic_vfio_def NETWORK_DRIVER_VFIO_def)
  have hp: "\<not> IsHugepagesEnabled x86_host"
    by (simp add: x86_host_def)
  note t = down_scripts_cover_non_vfio_nics [of deps0 x86_host nic_guest
      "stop_kill_commands deps0 nic_guest @ hugepages_umount_loop ''u1'' @
            ''/g/u1/if-down-br0-tap0.sh tap0'' @ nl" "[]" data0 start]
  from t [THEN conjunct1, THEN mp, OF h2] obtain lines where
    l: "map (nicDownScriptLine deps0 x86_host nic_guest) [nic_virtio] = map Inr lines"
    and s: "stop_kill_commands deps0 nic_guest @ hugepages_umount_loop ''u1'' @
            ''/g/u1/if-down-br0-tap0.sh tap0'' @ nl =
       stop_kill_commands deps0 nic_guest @ hugepages_umount_loop (Uuid (Desc nic_guest)) @ concat lines"
    unfolding f by blast
  from t [THEN conjunct2, THEN mp, OF h1] obtain lines2 rest where
    l2: "map (nicDownScriptLine deps0 x86_host nic_guest) [nic_virtio] = map Inr lines2"
    and s2: "start = concat lines2 @ (if IsHugepagesEnabled x86_host then hugepages_mount x86_host nic_guest else []) @ ''sleep 1'' @ nl @ rest"
    unfolding f by blast
  from l l2 have "map Inr lines = (map Inr lines2 :: (error + string) list)" by simp
  then have "lines2 = lines" by (simp add: inj_map_eq_map)
  with s2 hp have "\<exists>rest. start = concat lines @ ''sleep 1'' @ nl @ rest" by simp
  with h1 h2 f l s show ?thesis by blast
qed

subsection \<open>Anatomy of the start script\<close>

lemma generateStart_anatomy:
  assumes "generateStart d h s order data = Inr (script, input)"
  shows "\<exists>cmd0 qemuOpts.
      script = cmd0 @ ''DEFAULT_QEMU_CMD='' @ [CHR 0x27] @ selectQemuCmd d (selectQemuVersion d data) @
                 [CHR 0x27] @ nl @ ''QEMU_CMD=$DEFAULT_QEMU_CMD'' @ nl @ kvm_arg_line d h @
                 nic_helper_functions (VpcOvnEncapCostStr d) @
                 [CHR ''C'', CHR ''M'', CHR ''D'', CHR ''='', CHR 0x22] @ ''$QEMU_CMD $QEMU_CMD_KVM_ARG'' @ '' '' @ qemuOpts @
                 [CHR 0x22] @ nl @ incoming_tail \<and>
      GenerateStartOptions d input = Inr qemuOpts \<and>
      QemuVersion input = selectQemuVersion d data \<and>
      NeedMigrate input = need_migrate data \<and>
      OsName input = GetOsName s \<and>
      ExtraOptions_in input = [extraOptions s order] \<and>
      injectUsbDevices d (if IsAarch64 h then Arch_aarch64 else Arch_x86_64) s (GetOsName s) = Inr (Devices input)"
proof -
  from assms obtain encryptKeyPath downs diskScripts sriov devices mig qemuOpts where
    a: "nicDownScripts_loop d h s (Nics (Desc s)) [] = Inr downs"
       "generateDiskSetupScripts d s (Disks (Desc s)) = Inr diskScripts"
       "generateSRIOVInitScripts d s = Inr sriov"
       "injectUsbDevices d (if IsAarch64 h then Arch_aarch64 else Arch_x86_64) s (GetOsName s) = Inr devices"
       "injectMigrate s data = Inr mig"
    by (auto simp: generateStart_def bind_err_def wrap_err_def Let_def split: sum.splits prod.splits)
  obtain nm port tls where mig: "mig = (nm, port, tls)" by (cases mig)
  from a(5) mig have nm: "nm = need_migrate data"
    by (auto simp: injectMigrate_def split: if_splits option.splits)
  from assms a mig obtain qemuOpts where
    q: "GenerateStartOptions d input = Inr qemuOpts"
    and i: "QemuVersion input = selectQemuVersion d data" "NeedMigrate input = nm"
       "OsName input = GetOsName s" "ExtraOptions_in input = [extraOptions s order]"
       "Devices input = devices"
    and sc: "script = (downs @ (if IsHugepagesEnabled h then hugepages_mount h s else []) @ ''sleep 1'' @ nl @
         ''echo '' @ Sprintf_u (vnc_port data) @ '' > '' @ GetVncFilePath d s @ nl @ diskScripts @ sriov @
         ''STATE_FILE=`ls -d '' @ getStateFilePathRootPrefix d s @ ''* | head -n 1`'' @ nl @
         ''PID_FILE='' @ GetPidFilePath d s @ nl) @
         ''DEFAULT_QEMU_CMD='' @ [CHR 0x27] @ selectQemuCmd d (selectQemuVersion d data) @
                 [CHR 0x27] @ nl @ ''QEMU_CMD=$DEFAULT_QEMU_CMD'' @ nl @ kvm_arg_line d h @
                 nic_helper_functions (VpcOvnEncapCostStr d) @
                 [CHR ''C'', CHR ''M'', CHR ''D'', CHR ''='', CHR 0x22] @ ''$QEMU_CMD $QEMU_CMD_KVM_ARG'' @ '' '' @ qemuOpts @
                 [CHR 0x22] @ nl @ incoming_tail"
    by (auto simp: generateStart_def bind_err_def wrap_err_def Let_def split: sum.splits prod.splits if_splits)
  from q i sc nm a(4) show ?thesis by blast
qed

subsection \<open>USB input devices\<close>

lemma injectUsbDevices_Inr:
  assumes "injectUsbDevices d a s osName = Inr devs"
  shows "(a \<noteq> Arch_aarch64 \<and> osName = OS_NAME_ANDROID \<longrightarrow>
            ''usb-mouse'' \<in> set devs \<and> ''usb-tablet'' \<notin> set devs) \<and>
         (a = Arch_aarch64 \<longrightarrow>
            (\<exists>usbId. UsbId (Desc s) = Some usbId \<and>
               devs = [''usb-tablet,id=input0,bus='' @ usbId @ ''.0,port=1'',
                       ''usb-kbd,id=input1,bus='' @ usbId @ ''.0,port=2'']))"
  using assms
  by (auto simp: injectUsbDevices_def Let_def split: if_splits option.splits)

text \<open>
  C8: in the input that \<open>generateStartScript\<close> hands to the option renderer, the USB
  device list of an Android guest on a host that is not aarch64 contains \<open>usb-mouse\<close>
  and does not contain \<open>usb-tablet\<close>; on an aarch64 host the list is, whatever the OS,
  the pair of \<open>usb-tablet\<close> and \<open>usb-kbd\<close> bound to the id of the guest's USB
  controller. The OS name of the input is the guest's \<open>GetOsName\<close>.
\<close>

theorem usb_devices_android_and_aarch64:
  assumes "generateStart d h s order data = Inr (script, input)"
  shows "(\<not> IsAarch64 h \<and> OsName input = OS_NAME_ANDROID \<longrightarrow>
            ''usb-mouse'' \<in> set (Devices input) \<and> ''usb-tablet'' \<notin> set (Devices input)) \<and>
         (IsAarch64 h \<longrightarrow>
            (\<exists>usbId. UsbId (Desc s) = Some usbId \<and>
               Devices input = [''usb-tablet,id=input0,bus='' @ usbId @ ''.0,port=1'',
                                ''usb-kbd,id=input1,bus='' @ usbId @ ''.0,port=2''])) \<and>
         OsName input = GetOsName s"
proof -
  from generateStart_anatomy [OF assms]
  have u: "injectUsbDevices d (if IsAarch64 h then Arch_aarch64 else Arch_x86_64) s (GetOsName s) = Inr (Devices input)"
    and os: "OsName input = GetOsName s" by blast+
  from injectUsbDevices_Inr [OF u] os show ?thesis by auto
qed

theorem usb_devices_android_and_aarch64_witness:
  "\<exists>script1 input1 script2 input2.
     generateStart deps0 x86_host android_guest [] data0 = Inr (script1, input1) \<and>
     \<not> IsAarch64 x86_host \<and> OsName input1 = OS_NAME_ANDROID \<and>
     ''usb-mouse'' \<in> set (Devices input1) \<and> ''usb-tablet'' \<notin> set (Devices input1) \<and>
     generateStart deps0 arm_host guest0 [] data0 = Inr (script2, input2) \<and>
     IsAarch64 arm_host \<and>
     Devices input2 = [''usb-tablet,id=input0,bus=usb.0,port=1'', ''usb-kbd,id=input1,bus=usb.0,port=2'']"
proof -
  have "\<exists>script input. generateStart deps0 x86_host android_guest [] data0 = Inr (script, input)"
    by (simp add: generateStart_def saveEncryptKey_def bind_err_def wrap_err_def Let_def
        injectUsbDevices_def injectMigrate_def deps0_def x86_host_def android_guest_def guest0_def
        data0_def spec_GenerateStartOptions_def)
  then obtain script1 input1 where
    g1: "generateStart deps0 x86_host android_guest [] data0 = Inr (script1, input1)" by blast
  have "\<exists>script input. generateStart deps0 arm_host guest0 [] data0 = Inr (script, input)"
    by (simp add: generateStart_def saveEncryptKey_def bind_err_def wrap_err_def Let_def
        injectUsbDevices_def injectMigrate_def deps0_def arm_host_def x86_host_def guest0_def
        data0_def spec_GenerateStartOptions_def)
  then obtain script2 input2 where
    g2: "generateStart deps0 arm_host guest0 [] data0 = Inr (script2, input2)" by blast
  have x: "\<not> IsAarch64 x86_host" by (simp add: x86_host_def)
  have a: "IsAarch64 arm_host" by (simp add: arm_host_def)
  have os: "GetOsName android_guest = OS_NAME_ANDROID"
    by (simp add: GetOsName_def android_guest_def guest0_def)
  have usb: "UsbId (Desc guest0) = Some ''usb''" by (simp add: guest0_def)
  note t1 = usb_devices_android_and_aarch64 [OF g1]
  note t2 = usb_devices_android_and_aarch64 [OF g2]
  from t1 os have o1: "OsName input1 = OS_NAME_ANDROID" by simp
  with t1 x have d1: "''usb-mouse'' \<in> set (Devices input1) \<and> ''usb-tablet'' \<notin> set (Devices input1)"
    by blast
  from t2 a usb have d2: "Devices input2 = [''usb-tablet,id=input0,bus=usb.0,port=1'', ''usb-kbd,id=input1,bus=usb.0,port=2'']"
    by simp
  from g1 g2 x a o1 d1 d2 show ?thesis by blast
qed

subsection \<open>The hypervisor binary\<close>



subsection \<open>The incoming clause\<close>




















subsection \<open>Extra options and the order of a map\<close>

text \<open>
  C1 does not hold of the code: \<open>extraOptions\<close> ranges over a Go map, and two calls on
  the same descriptor with two option keys may visit them in either order. The two
  orders give two different strings and two different start scripts.
\<close>

theorem extraOptions_depends_on_range_order:
  "range_order (ExtraOptions (Desc opts_guest)) [''smp'', ''m''] \<and>
   range_order (ExtraOptions (Desc opts_guest)) [''m'', ''smp''] \<and>
   extraOptions opts_guest [''smp'', ''m''] = ''  -smp 4 -m 2048'' \<and>
   extraOptions opts_guest [''m'', ''smp''] = ''  -m 2048 -smp 4'' \<and>
   generateStartScript deps0 x86_host opts_guest [''smp'', ''m''] data0 \<noteq>
   generateStartScript deps0 x86_host opts_guest [''m'', ''smp''] data0"
proof (intro conjI)
  show "range_order (ExtraOptions (Desc opts_guest)) [''smp'', ''m'']"
    by (auto simp: range_order_def opts_guest_def guest0_def)
  show "range_order (ExtraOptions (Desc opts_guest)) [''m'', ''smp'']"
    by (auto simp: range_order_def opts_guest_def guest0_def)
  show "extraOptions opts_guest [''smp'', ''m''] = ''  -smp 4 -m 2048''"
    by (simp add: extraOptions_def opts_guest_def guest0_def)
  show "extraOptions opts_guest [''m'', ''smp''] = ''  -m 2048 -smp 4''"
    by (simp add: extraOptions_def opts_guest_def guest0_def)
  show "generateStartScript deps0 x86_host opts_guest [''smp'', ''m''] data0 \<noteq>
   generateStartScript deps0 x86_host opts_guest [''m'', ''smp''] data0"
    by (simp add: generateStartScript_def generateStart_def saveEncryptKey_def bind_err_def
        wrap_err_def Let_def injectUsbDevices_def injectMigrate_def deps0_def x86_host_def
        opts_guest_def guest0_def data0_def spec_GenerateStartOptions_def extraOptions_def)
qed

subsection \<open>Command line unification\<close>

lemma FilterOption_idem [simp]: "FilterOption p (FilterOption p cl) = FilterOption p cl"
  by (simp add: FilterOption_def)

lemma filter_FilterOption [simp]: "filter p (FilterOption p cl) = []"
  by (simp add: FilterOption_def)

lemma FilterOption_filter [simp]: "FilterOption p (filter p cl) = []"
  by (simp add: FilterOption_def)

lemma FilterOption_append [simp]: "FilterOption p (xs @ ys) = FilterOption p xs @ FilterOption p ys"
  by (simp add: FilterOption_def)

lemma parseCmdline_Inr:
  "NewCmdline q t = Inr cl \<Longrightarrow>
     parseCmdline q t = Inr (FilterOption dynamic_option cl, filter dynamic_option cl)"
  by (simp add: parseCmdline_def)



text \<open>
  C3: unification is idempotent, \<open>unify (unify a b) b = unify a b\<close>, for all command
  lines \<open>a\<close> and \<open>b\<close> that parse, for every implementation of the two libraries that
  keeps their contract: the options a parse yields satisfy an invariant \<open>ok\<close> under which
  serialising and parsing again gives the same options (the round trip of the spec), and
  applying to a text the patch made from its diff with a second text gives the second
  text.
\<close>

theorem unifyMigrateQemuCmdline_idempotent:
  assumes pa: "NewCmdline q a = Inr clA"
    and pb: "NewCmdline q b = Inr clB"
    and wf_parse: "\<forall>t cl. NewCmdline q t = Inr cl \<longrightarrow> list_all ok cl"
    and roundtrip: "\<forall>cl. list_all ok cl \<longrightarrow> NewCmdline q (ToString q cl) = Inr cl"
    and patch: "\<forall>text1 text2. u_unifyMigrateQemuCmdline dmp text1 text2 = text2"
  shows "\<exists>u. unifyMigrateQemuCmdline q dmp a b = Inr u \<and>
             unifyMigrateQemuCmdline q dmp u b = Inr u"
proof -
  let ?kB = "FilterOption dynamic_option clB"
  let ?fA = "filter dynamic_option clA"
  from wf_parse pa have wfA: "list_all ok clA" by blast
  from wf_parse pb have wfB: "list_all ok clB" by blast
  from wfB have wfk: "list_all ok ?kB" by (simp add: FilterOption_def list_all_iff)
  from wfA have wff: "list_all ok ?fA" by (simp add: list_all_iff)
  from roundtrip wfk have rk: "NewCmdline q (ToString q ?kB) = Inr ?kB" by blast
  from roundtrip wfk wff have ru: "NewCmdline q (ToString q (?kB @ ?fA)) = Inr (?kB @ ?fA)" by simp
  have pk: "parseCmdline q (ToString q ?kB) = Inr (?kB, [])"
    using parseCmdline_Inr [OF rk] by simp
  have pu: "parseCmdline q (ToString q (?kB @ ?fA)) = Inr (?kB, ?fA)"
    using parseCmdline_Inr [OF ru] by simp
  have 1: "unifyCmdline q dmp a b = Inr (?kB @ ?fA)"
    using parseCmdline_Inr [OF pa] parseCmdline_Inr [OF pb] pk patch
    by (simp add: unifyCmdline_def Let_def AddOption_def)
  have 2: "unifyCmdline q dmp (ToString q (?kB @ ?fA)) b = Inr (?kB @ ?fA)"
    using pu parseCmdline_Inr [OF pb] pk patch
    by (simp add: unifyCmdline_def Let_def AddOption_def)
  from 1 2 show ?thesis
    by (simp add: unifyMigrateQemuCmdline_def bind_err_def)
qed


lemma tokens_from_append:
  "CHR '' '' \<notin> set w \<Longrightarrow> tokens_from (w @ rest) cur = tokens_from rest (cur @ w)"
  by (induction w arbitrary: cur) auto

lemma tokens_from_blank_separated:
  "\<forall>t\<in>set ts. CHR '' '' \<notin> set t \<Longrightarrow> ts \<noteq> [] \<Longrightarrow>
     tokens_from (tl (concat (map (\<lambda>t. CHR '' '' # t) ts))) [] = ts"
proof (induction ts)
  case Nil
  then show ?case by simp
next
  case (Cons t ts)
  show ?case
  proof (cases ts)
    case Nil
    with Cons.prems tokens_from_append [of t "[]" "[]"] show ?thesis by simp
  next
    case (Cons t' ts')
    with Cons.IH Cons.prems
    have ih: "tokens_from (tl (concat (map (\<lambda>t. CHR '' '' # t) ts))) [] = ts" by simp
    from Cons.prems have "CHR '' '' \<notin> set t" by simp
    from tokens_from_append [OF this, of "concat (map (\<lambda>t. CHR '' '' # t) ts)" "[]"] Cons ih
    show ?thesis by simp
  qed
qed

lemma parse_tokens_option_tokens:
  "list_all wf_option cl \<Longrightarrow> parse_tokens (concat (map option_tokens cl)) = Inr cl"
proof (induction cl)
  case Nil
  then show ?case by simp
next
  case (Cons opt cl)
  then have ih: "parse_tokens (concat (map option_tokens cl)) = Inr cl"
    and w: "wf_option opt" by simp_all
  show ?case
  proof (cases "Value opt = []")
    case True
    show ?thesis
    proof (cases cl)
      case Nil
      with True show ?thesis by (simp add: option_tokens_def)
    next
      case (Cons opt' cl')
      then obtain v ts where r: "concat (map option_tokens cl) = v # ts" "hd v = CHR ''-''"
        by (simp add: option_tokens_def)
      from True have e: "option_tokens opt = [CHR ''-'' # Key opt]"
        by (simp add: option_tokens_def)
      from e r have "concat (map option_tokens (opt # cl)) = (CHR ''-'' # Key opt) # v # ts"
        by simp
      moreover from ih r True have "parse_tokens ((CHR ''-'' # Key opt) # v # ts) = Inr (opt # cl)"
        by simp
      ultimately show ?thesis by simp
    qed
  next
    case False
    with w have e: "option_tokens opt = [CHR ''-'' # Key opt, Value opt]"
      and v: "hd (Value opt) \<noteq> CHR ''-''"
      by (simp_all add: option_tokens_def wf_option_def)
    from e have "concat (map option_tokens (opt # cl)) =
        (CHR ''-'' # Key opt) # Value opt # concat (map option_tokens cl)"
      by simp
    moreover from ih False v
    have "parse_tokens ((CHR ''-'' # Key opt) # Value opt # concat (map option_tokens cl)) = Inr (opt # cl)"
      by simp
    ultimately show ?thesis by simp
  qed
qed

lemma option_tokens_no_blank:
  "list_all wf_option cl \<Longrightarrow> \<forall>t\<in>set (concat (map option_tokens cl)). CHR '' '' \<notin> set t"
  by (induction cl) (auto simp: option_tokens_def wf_option_def)

lemma ref_roundtrip:
  assumes "list_all wf_option cl"
  shows "ref_NewCmdline (ref_ToString cl) = Inr cl"
proof (cases cl)
  case Nil
  then show ?thesis by (simp add: ref_NewCmdline_def ref_ToString_def)
next
  case (Cons opt cl')
  then have ne: "concat (map option_tokens cl) \<noteq> []" by (simp add: option_tokens_def)
  then obtain t ts where ts: "concat (map option_tokens cl) = t # ts"
    by (cases "concat (map option_tokens cl)") auto
  from tokens_from_blank_separated [OF option_tokens_no_blank [OF assms] ne]
    parse_tokens_option_tokens [OF assms] ts
  show ?thesis by (simp add: ref_NewCmdline_def ref_ToString_def)
qed

lemma tokens_from_no_blank:
  "CHR '' '' \<notin> set cur \<Longrightarrow> \<forall>t\<in>set (tokens_from inp cur). CHR '' '' \<notin> set t"
proof (induction inp arbitrary: cur)
  case Nil
  then show ?case by simp
next
  case (Cons c cs)
  from Cons.IH [of "[]"] Cons.IH [of "cur @ [c]"] Cons.prems show ?case by auto
qed

lemma parse_tokens_wf:
  "parse_tokens ts = Inr cl \<Longrightarrow> \<forall>t\<in>set ts. CHR '' '' \<notin> set t \<Longrightarrow> list_all wf_option cl"
proof (induction ts arbitrary: cl rule: parse_tokens.induct)
  case 1
  then show ?case by simp
next
  case (2 t)
  then show ?case
    by (cases t) (auto simp: wf_option_def split: if_splits)
next
  case (3 t v ts)
  from "3.prems" have k: "t \<noteq> []" "hd t = CHR ''-''" by (auto split: if_splits)
  from "3.prems" k have nb: "CHR '' '' \<notin> set (tl t)" "CHR '' '' \<notin> set v"
    by (cases t; simp)+
  show ?case
  proof (cases "v \<noteq> [] \<and> hd v \<noteq> CHR ''-''")
    case True
    with "3.prems" k obtain cl' where
      c: "parse_tokens ts = Inr cl'" "cl = \<lparr>Key = tl t, Value = v\<rparr> # cl'"
      by (auto split: sum.splits)
    from "3.IH"(1) [OF _ True c(1)] k "3.prems" have "list_all wf_option cl'" by simp
    moreover from nb True have "wf_option \<lparr>Key = tl t, Value = v\<rparr>" by (simp add: wf_option_def)
    ultimately show ?thesis using c by simp
  next
    case False
    with "3.prems" k obtain cl' where
      c: "parse_tokens (v # ts) = Inr cl'" "cl = \<lparr>Key = tl t, Value = []\<rparr> # cl'"
      by (auto split: sum.splits)
    from "3.IH"(2) [OF _ False c(1)] k "3.prems" have "list_all wf_option cl'" by simp
    moreover from nb have "wf_option \<lparr>Key = tl t, Value = []\<rparr>" by (simp add: wf_option_def)
    ultimately show ?thesis using c by simp
  qed
qed

lemma ref_NewCmdline_wf:
  "ref_NewCmdline text = Inr cl \<Longrightarrow> list_all wf_option cl"
  using parse_tokens_wf [of "tokens_from (tl text) []" cl] tokens_from_no_blank [of "[]" "tl text"]
  by (auto simp: ref_NewCmdline_def split: list.splits if_splits)

lemma ref_dmp_patch: "u_unifyMigrateQemuCmdline ref_dmp text1 text2 = text2"
  by (simp add: u_unifyMigrateQemuCmdline_def ref_dmp_def)



theorem unifyMigrateQemuCmdline_idempotent_witness:
  "unifyMigrateQemuCmdline ref_qemutils ref_dmp cur_cmdline src_cmdline =
     Inr '' -name vm1 -m 4G -rtc base=utc -vnc :1 -incoming tcp:0:4396 -daemonize'' \<and>
   unifyMigrateQemuCmdline ref_qemutils ref_dmp
       '' -name vm1 -m 4G -rtc base=utc -vnc :1 -incoming tcp:0:4396 -daemonize'' src_cmdline =
     Inr '' -name vm1 -m 4G -rtc base=utc -vnc :1 -incoming tcp:0:4396 -daemonize''"
proof -
  have c: "NewCmdline ref_qemutils cur_cmdline =
     Inr [\<lparr>Key = ''name'', Value = ''vm1''\<rparr>, \<lparr>Key = ''vnc'', Value = '':1''\<rparr>,
          \<lparr>Key = ''m'', Value = ''2G''\<rparr>, \<lparr>Key = ''incoming'', Value = ''tcp:0:4396''\<rparr>,
          \<lparr>Key = ''daemonize'', Value = []\<rparr>]"
    by (simp add: ref_qemutils_def ref_NewCmdline_def cur_cmdline_def)
  have s: "NewCmdline ref_qemutils src_cmdline =
     Inr [\<lparr>Key = ''name'', Value = ''vm1''\<rparr>, \<lparr>Key = ''m'', Value = ''4G''\<rparr>,
          \<lparr>Key = ''vnc'', Value = '':7''\<rparr>, \<lparr>Key = ''incoming'', Value = ''defer''\<rparr>,
          \<lparr>Key = ''rtc'', Value = ''base=utc''\<rparr>]"
    by (simp add: ref_qemutils_def ref_NewCmdline_def src_cmdline_def)
  have w: "\<forall>t cl. NewCmdline ref_qemutils t = Inr cl \<longrightarrow> list_all wf_option cl"
    using ref_NewCmdline_wf by (simp add: ref_qemutils_def)
  have r: "\<forall>cl. list_all wf_option cl \<longrightarrow>
             NewCmdline ref_qemutils (ToString ref_qemutils cl) = Inr cl"
    using ref_roundtrip by (simp add: ref_qemutils_def)
  have p: "\<forall>text1 text2. u_unifyMigrateQemuCmdline ref_dmp text1 text2 = text2"
    by (simp add: u_unifyMigrateQemuCmdline_def ref_dmp_def)
  have e: "unifyMigrateQemuCmdline ref_qemutils ref_dmp cur_cmdline src_cmdline =
     Inr '' -name vm1 -m 4G -rtc base=utc -vnc :1 -incoming tcp:0:4396 -daemonize''"
    by (simp add: unifyMigrateQemuCmdline_def bind_err_def unifyCmdline_def parseCmdline_def c s
        FilterOption_def AddOption_def dynamic_option_def valsMatch_def p Let_def)
      (simp add: ref_qemutils_def ref_NewCmdline_def ref_ToString_def option_tokens_def
        FilterOption_def AddOption_def
        dynamic_option_def valsMatch_def)
  from unifyMigrateQemuCmdline_idempotent [OF c s w r p] e show ?thesis by auto
qed

end
